theory Spec2Isabelle
  imports Main "HOL-Library.AList"
begin

section \<open>Python values and the outside world\<close>

text \<open>
  The repository holds two variants of one Flask application: \<^verbatim>\<open>App.py\<close> (the earlier
  one) and \<^verbatim>\<open>app.py\<close> (the later one). Both are embedded. A definition taken from
  \<^verbatim>\<open>App.py\<close> carries the suffix \<open>_v1\<close>, one taken from \<^verbatim>\<open>app.py\<close> the suffix
  \<open>_v2\<close>; a leading underscore of the Python name is dropped (\<^verbatim>\<open>_google_headers\<close> is
  \<open>google_headers_v2\<close>).

  Values read from JSON are modelled by \<open>json\<close>. A Python \<^verbatim>\<open>dict\<close> is an association list:
  lookup is \<open>map_of\<close>, and \<^verbatim>\<open>d[k] = v\<close> is \<open>AList.update\<close>, which replaces the value of an
  existing key in place and appends a new key at the end, as a Python dict does. JSON
  numbers with a fraction or an exponent are not modelled. Strings are byte strings.
\<close>

datatype json =
    JNull
  | JBool bool
  | JInt int
  | JStr string
  | JArr "json list"
  | JObj "(string \<times> json) list"

datatype exn =
    KeyError
  | TypeError
  | ValueError
  | AttributeError
  | JSONDecodeError
  | RequestException
  | HTTPError
  | BadRequest

text \<open>Truth value of a Python object, as \<^verbatim>\<open>if x:\<close> and \<^verbatim>\<open>not x\<close> read it.\<close>

fun truthy :: "json \<Rightarrow> bool" where
  "truthy JNull = False"
| "truthy (JBool b) = b"
| "truthy (JInt n) = (n \<noteq> 0)"
| "truthy (JStr s) = (s \<noteq> [])"
| "truthy (JArr xs) = (xs \<noteq> [])"
| "truthy (JObj kvs) = (kvs \<noteq> [])"

text \<open>\<^verbatim>\<open>x.get(key, default)\<close>: only a dict has the method.\<close>

definition get_or :: "(string \<times> json) list \<Rightarrow> string \<Rightarrow> json \<Rightarrow> json" where
  "get_or kvs key dflt = (case map_of kvs key of None \<Rightarrow> dflt | Some v \<Rightarrow> v)"

fun py_get :: "json \<Rightarrow> string \<Rightarrow> json \<Rightarrow> exn + json" where
  "py_get (JObj kvs) key dflt = Inr (get_or kvs key dflt)"
| "py_get _ key dflt = Inl AttributeError"

text \<open>\<^verbatim>\<open>x[key]\<close> with a string key.\<close>

fun py_getitem :: "json \<Rightarrow> string \<Rightarrow> exn + json" where
  "py_getitem (JObj kvs) key = (case map_of kvs key of None \<Rightarrow> Inl KeyError | Some v \<Rightarrow> Inr v)"
| "py_getitem _ key = Inl TypeError"

text \<open>\<^verbatim>\<open>x[key] = v\<close> with a string key; the updated object is returned.\<close>

fun py_setitem :: "json \<Rightarrow> string \<Rightarrow> json \<Rightarrow> exn + json" where
  "py_setitem (JObj kvs) key v = Inr (JObj (AList.update key v kvs))"
| "py_setitem _ key v = Inl TypeError"

text \<open>
  Three Python built-ins are taken as given and not modelled: \<^verbatim>\<open>int(s)\<close> for a string \<open>s\<close>
  (\<open>None\<close> when it raises \<^verbatim>\<open>ValueError\<close>), \<^verbatim>\<open>str(e)\<close> for an exception, and \<^verbatim>\<open>str(x)\<close>
  for a value that is not a string. Every function that depends on one of them takes the
  run time as an argument, and every theorem holds whatever the three functions are.
\<close>

record runtime =
  int_of_str :: "string \<Rightarrow> int option"
  str_of_exn :: "exn \<Rightarrow> string"
  str_of_json :: "json \<Rightarrow> string"

text \<open>\<^verbatim>\<open>int(x)\<close> for a value read from JSON or from the query string.\<close>

fun py_int :: "runtime \<Rightarrow> json \<Rightarrow> exn + int" where
  "py_int py (JInt n) = Inr n"
| "py_int py (JBool b) = Inr (if b then 1 else 0)"
| "py_int py (JStr s) = (case int_of_str py s of None \<Rightarrow> Inl ValueError | Some n \<Rightarrow> Inr n)"
| "py_int py _ = Inl TypeError"

text \<open>A value inside an f-string: a string stands for itself.\<close>

definition py_format :: "runtime \<Rightarrow> json \<Rightarrow> string" where
  "py_format py v = (case v of JStr s \<Rightarrow> s | _ \<Rightarrow> str_of_json py v)"

text \<open>Cutting a string at every occurrence of a character, as \<^verbatim>\<open>s.split(c)\<close> does.\<close>

fun split_on :: "char \<Rightarrow> string \<Rightarrow> string list" where
  "split_on c [] = [[]]"
| "split_on c (x # xs) =
     (if x = c then [] # split_on c xs
      else (case split_on c xs of [] \<Rightarrow> [[x]] | g # gs \<Rightarrow> (x # g) # gs))"

text \<open>
  Arithmetic of a Python \<^verbatim>\<open>int\<close> with a value read from JSON (\<^verbatim>\<open>a + x\<close>, \<^verbatim>\<open>x - a\<close>): an
  integer or a boolean takes part, anything else raises \<^verbatim>\<open>TypeError\<close>.
\<close>

fun py_number :: "json \<Rightarrow> exn + int" where
  "py_number (JInt n) = Inr n"
| "py_number (JBool b) = Inr (if b then 1 else 0)"
| "py_number _ = Inl TypeError"

subsection \<open>The world a request handler runs in\<close>

text \<open>
  The token file \<^verbatim>\<open>TOKENS_FILE\<close> is absent, present with content that \<^verbatim>\<open>json.load\<close>
  rejects, or present with a JSON value. Writing the file is assumed to succeed.

  An HTTP exchange made through \<^verbatim>\<open>requests\<close> either raises (time-out, connection error)
  or yields a response; \<open>decoded\<close> is what \<^verbatim>\<open>r.json()\<close> returns, \<open>None\<close> when the body is
  not JSON. The provider is an oracle: \<open>token_server w n\<close> is the time taken by, and the
  outcome of, the \<open>n\<close>-th POST to the token endpoint, \<open>api_server w n\<close> that of the \<open>n\<close>-th
  request to a resource endpoint. Every request made is appended to a log, and the clock
  (\<^verbatim>\<open>int(time.time())\<close>) advances by the time each exchange takes.

  A request to a resource endpoint is recorded with its method, its URL, its query
  parameters (as passed to \<^verbatim>\<open>requests\<close>), the value of \<^verbatim>\<open>json=\<close> if there is one, and
  \<open>bearer\<close>: \<open>Some t\<close> when the header \<^verbatim>\<open>Authorization: Bearer {t}\<close> is sent, \<open>None\<close> when
  the request carries no headers (\<^verbatim>\<open>headers=None\<close>). A \<^verbatim>\<open>Content-Type\<close> header is not
  recorded.
\<close>

datatype file_state = NoFile | Corrupt | Content json

record http_response =
  status_code :: int
  body_text :: string
  decoded :: "json option"

datatype outcome = Failed | Answered http_response

record api_request =
  http_verb :: string
  url :: string
  bearer :: "json option"
  params :: "(string \<times> json) list"
  json_payload :: "json option"

record world =
  tokens_file :: file_state
  clock :: int
  token_server :: "nat \<Rightarrow> nat \<times> outcome"
  api_server :: "nat \<Rightarrow> nat \<times> outcome"
  token_log :: "(string \<times> json) list list"
  api_log :: "api_request list"

type_synonym 'a io = "world \<Rightarrow> (exn + 'a) \<times> world"

definition io_return :: "'a \<Rightarrow> 'a io" where
  "io_return x w = (Inr x, w)"

definition io_lift :: "exn + 'a \<Rightarrow> 'a io" where
  "io_lift r w = (r, w)"

definition io_bind :: "'a io \<Rightarrow> ('a \<Rightarrow> 'b io) \<Rightarrow> 'b io" where
  "io_bind m f w = (case m w of (Inl e, w') \<Rightarrow> (Inl e, w') | (Inr x, w') \<Rightarrow> f x w')"

text \<open>\<^verbatim>\<open>try: m  except Exception: h\<close>; what \<open>m\<close> did to the world before raising stays done.\<close>

definition io_try :: "'a io \<Rightarrow> 'a io \<Rightarrow> 'a io" where
  "io_try m h w = (case m w of (Inl e, w') \<Rightarrow> h w' | (Inr x, w') \<Rightarrow> (Inr x, w'))"

definition time_time :: "int io" where
  "time_time w = (Inr (clock w), w)"

text \<open>The world after one more exchange with the token endpoint, or with a resource endpoint.\<close>

definition posted :: "(string \<times> json) list \<Rightarrow> world \<Rightarrow> world" where
  "posted data w =
     w\<lparr>clock := clock w + int (fst (token_server w (length (token_log w)))),
       token_log := token_log w @ [data]\<rparr>"

definition called :: "api_request \<Rightarrow> world \<Rightarrow> world" where
  "called rq w =
     w\<lparr>clock := clock w + int (fst (api_server w (length (api_log w)))),
       api_log := api_log w @ [rq]\<rparr>"

definition requests_post_token :: "(string \<times> json) list \<Rightarrow> http_response io" where
  "requests_post_token data w =
     (case snd (token_server w (length (token_log w))) of
        Failed \<Rightarrow> (Inl RequestException, posted data w)
      | Answered r \<Rightarrow> (Inr r, posted data w))"

definition requests_api :: "api_request \<Rightarrow> http_response io" where
  "requests_api rq w =
     (case snd (api_server w (length (api_log w))) of
        Failed \<Rightarrow> (Inl RequestException, called rq w)
      | Answered r \<Rightarrow> (Inr r, called rq w))"

text \<open>\<^verbatim>\<open>r.raise_for_status()\<close> raises for a status from 400 to 599.\<close>

definition raise_for_status :: "http_response \<Rightarrow> unit io" where
  "raise_for_status r =
     (if 400 \<le> status_code r \<and> status_code r < 600 then io_lift (Inl HTTPError)
      else io_return ())"

definition response_json :: "http_response \<Rightarrow> json io" where
  "response_json r = (case decoded r of None \<Rightarrow> io_lift (Inl JSONDecodeError) | Some j \<Rightarrow> io_return j)"

subsection \<open>Requests, responses, configuration\<close>

text \<open>
  A request carries its headers (names in lower case, as Flask looks them up without
  regard to case), its query arguments and \<open>json_body\<close>, the value its body decodes to
  (\<open>None\<close> when the body is not JSON). A handler answers with a text or JSON body and
  a status, or with a redirect.
\<close>

record request =
  headers :: "string \<rightharpoonup> string"
  args :: "string \<rightharpoonup> string"
  json_body :: "json option"

datatype response =
    Text string int
  | Json json int
  | Redirect string int

type_synonym handler = "request \<Rightarrow> response io"

text \<open>
  The module globals read from the environment. In \<^verbatim>\<open>App.py\<close> \<^verbatim>\<open>os.getenv\<close> has no
  default, so an unset variable is \<^verbatim>\<open>None\<close>; in \<^verbatim>\<open>app.py\<close> the default is the empty
  string, and \<^verbatim>\<open>SCOPES\<close> is a list.
\<close>

record config_v1 =
  CLIENT_ID_v1 :: "string option"
  CLIENT_SECRET_v1 :: "string option"
  REDIRECT_URI_v1 :: "string option"
  SCOPES_v1 :: string
  API_KEY_v1 :: "string option"

record config_v2 =
  CLIENT_ID_v2 :: string
  CLIENT_SECRET_v2 :: string
  REDIRECT_URI_v2 :: string
  SCOPES_v2 :: "string list"
  API_KEY_v2 :: string

definition env_json :: "string option \<Rightarrow> json" where
  "env_json v = (case v of None \<Rightarrow> JNull | Some s \<Rightarrow> JStr s)"

section \<open>Credential store\<close>

text \<open>\<^verbatim>\<open>App.py\<close>, \<^verbatim>\<open>load_tokens\<close> and \<^verbatim>\<open>save_tokens\<close>: no file gives \<^verbatim>\<open>None\<close>.\<close>

definition load_tokens_v1 :: "json io" where
  "load_tokens_v1 w =
     (case tokens_file w of
        NoFile \<Rightarrow> (Inr JNull, w)
      | Corrupt \<Rightarrow> (Inl JSONDecodeError, w)
      | Content j \<Rightarrow> (Inr j, w))"

definition save_tokens_v1 :: "json \<Rightarrow> unit io" where
  "save_tokens_v1 d w = (Inr (), w\<lparr>tokens_file := Content d\<rparr>)"

text \<open>\<^verbatim>\<open>app.py\<close>, \<^verbatim>\<open>load_tokens\<close> and \<^verbatim>\<open>save_tokens\<close>: no file and a failing read give \<^verbatim>\<open>{}\<close>.\<close>

definition load_tokens_v2 :: "json io" where
  "load_tokens_v2 w =
     (case tokens_file w of
        NoFile \<Rightarrow> (Inr (JObj []), w)
      | Corrupt \<Rightarrow> io_try (io_lift (Inl JSONDecodeError)) (io_return (JObj [])) w
      | Content j \<Rightarrow> io_try (io_return j) (io_return (JObj [])) w)"

definition save_tokens_v2 :: "json \<Rightarrow> unit io" where
  "save_tokens_v2 data w = (Inr (), w\<lparr>tokens_file := Content data\<rparr>)"

section \<open>Credential manager\<close>

subsection \<open>\<^verbatim>\<open>App.py\<close>\<close>

text \<open>The form posted by \<^verbatim>\<open>refresh_access_token\<close> (its local \<^verbatim>\<open>data\<close>).\<close>

definition refresh_data_v1 :: "config_v1 \<Rightarrow> json \<Rightarrow> (string \<times> json) list" where
  "refresh_data_v1 cfg refresh_token =
     [(''client_id'', env_json (CLIENT_ID_v1 cfg)),
      (''client_secret'', env_json (CLIENT_SECRET_v1 cfg)),
      (''refresh_token'', refresh_token),
      (''grant_type'', JStr ''refresh_token'')]"

definition refresh_access_token_v1 :: "config_v1 \<Rightarrow> json \<Rightarrow> json io" where
  "refresh_access_token_v1 cfg refresh_token =
     io_bind (requests_post_token (refresh_data_v1 cfg refresh_token)) (\<lambda>r.
     io_bind (raise_for_status r) (\<lambda>_.
     io_bind (response_json r) (\<lambda>j.
     io_bind (io_lift (py_setitem j ''refresh_token'' refresh_token)) (\<lambda>j.
     io_bind time_time (\<lambda>now.
     io_bind (io_lift (py_get j ''expires_in'' (JInt 3500))) (\<lambda>ttl.
     io_bind (io_lift (py_number ttl)) (\<lambda>ttl.
     io_bind (io_lift (py_setitem j ''expires_at'' (JInt (now + ttl)))) (\<lambda>j.
     io_bind (save_tokens_v1 j) (\<lambda>_.
     io_return j)))))))))"

text \<open>\<^verbatim>\<open>get_access_token\<close>; the result \<open>JNull\<close> is Python's \<^verbatim>\<open>None\<close>.\<close>

definition get_access_token_v1 :: "config_v1 \<Rightarrow> json io" where
  "get_access_token_v1 cfg =
     io_bind load_tokens_v1 (\<lambda>t.
     if \<not> truthy t then io_return JNull
     else
       io_bind time_time (\<lambda>now.
       io_bind (io_lift (py_get t ''expires_at'' (JInt 0))) (\<lambda>e.
       io_bind (io_lift (py_number e)) (\<lambda>e.
       io_bind
         (if now \<ge> e - 60
          then io_bind (io_lift (py_getitem t ''refresh_token'')) (refresh_access_token_v1 cfg)
          else io_return t) (\<lambda>t.
       io_lift (py_getitem t ''access_token''))))))"

subsection \<open>\<^verbatim>\<open>app.py\<close>\<close>

text \<open>The forms posted by \<^verbatim>\<open>_exchange_code_for_tokens\<close> and \<^verbatim>\<open>_refresh_access_token\<close>.\<close>

definition exchange_data_v2 :: "config_v2 \<Rightarrow> string \<Rightarrow> (string \<times> json) list" where
  "exchange_data_v2 cfg code =
     [(''code'', JStr code),
      (''client_id'', JStr (CLIENT_ID_v2 cfg)),
      (''client_secret'', JStr (CLIENT_SECRET_v2 cfg)),
      (''redirect_uri'', JStr (REDIRECT_URI_v2 cfg)),
      (''grant_type'', JStr ''authorization_code'')]"

definition refresh_data_v2 :: "config_v2 \<Rightarrow> json \<Rightarrow> (string \<times> json) list" where
  "refresh_data_v2 cfg refresh_token =
     [(''client_id'', JStr (CLIENT_ID_v2 cfg)),
      (''client_secret'', JStr (CLIENT_SECRET_v2 cfg)),
      (''refresh_token'', refresh_token),
      (''grant_type'', JStr ''refresh_token'')]"

definition exchange_code_for_tokens_v2 :: "runtime \<Rightarrow> config_v2 \<Rightarrow> string \<Rightarrow> json io" where
  "exchange_code_for_tokens_v2 py cfg code =
     io_bind (requests_post_token (exchange_data_v2 cfg code)) (\<lambda>r.
     io_bind (raise_for_status r) (\<lambda>_.
     io_bind (response_json r) (\<lambda>token_json.
     io_bind time_time (\<lambda>now.
     io_bind (io_lift (py_get token_json ''expires_in'' (JInt 3600))) (\<lambda>ttl.
     io_bind (io_lift (py_int py ttl)) (\<lambda>ttl.
     io_lift (py_setitem token_json ''expires_at'' (JInt (now + ttl - 60)))))))))"

definition refresh_access_token_v2 :: "runtime \<Rightarrow> config_v2 \<Rightarrow> json \<Rightarrow> json io" where
  "refresh_access_token_v2 py cfg refresh_token =
     io_bind (requests_post_token (refresh_data_v2 cfg refresh_token)) (\<lambda>r.
     io_bind (raise_for_status r) (\<lambda>_.
     io_bind (response_json r) (\<lambda>token_json.
     io_bind (io_lift (py_setitem token_json ''refresh_token'' refresh_token)) (\<lambda>token_json.
     io_bind time_time (\<lambda>now.
     io_bind (io_lift (py_get token_json ''expires_in'' (JInt 3600))) (\<lambda>ttl.
     io_bind (io_lift (py_int py ttl)) (\<lambda>ttl.
     io_lift (py_setitem token_json ''expires_at'' (JInt (now + ttl - 60))))))))))"

text \<open>
  \<^verbatim>\<open>_google_headers\<close>. The result \<open>None\<close> is Python's \<^verbatim>\<open>None\<close>; \<open>Some t\<close> is the dict
  \<^verbatim>\<open>{"Authorization": f"Bearer {t}"}\<close>.
\<close>

definition google_headers_v2 :: "runtime \<Rightarrow> config_v2 \<Rightarrow> json option io" where
  "google_headers_v2 py cfg =
     io_bind load_tokens_v2 (\<lambda>tokens.
     if \<not> truthy tokens then io_return None
     else
       io_bind (io_lift (py_get tokens ''expires_at'' (JInt 0))) (\<lambda>e.
       io_bind (io_lift (py_int py e)) (\<lambda>e.
       io_bind time_time (\<lambda>now.
       io_bind
         (if e \<le> now
          then
            io_bind (io_lift (py_get tokens ''refresh_token'' JNull)) (\<lambda>rt.
            if \<not> truthy rt then io_return None
            else
              io_try
                (io_bind (io_lift (py_getitem tokens ''refresh_token'')) (\<lambda>rt.
                 io_bind (refresh_access_token_v2 py cfg rt) (\<lambda>tokens.
                 io_bind (save_tokens_v2 tokens) (\<lambda>_.
                 io_return (Some tokens)))))
                (io_return None))
          else io_return (Some tokens)) (\<lambda>live.
       case live of
         None \<Rightarrow> io_return None
       | Some tokens \<Rightarrow>
           io_bind (io_lift (py_get tokens ''access_token'' JNull)) (\<lambda>access_token.
           if \<not> truthy access_token then io_return None
           else io_return (Some access_token)))))))"

section \<open>Caller authentication\<close>

definition forbidden_v1 :: response where
  "forbidden_v1 = Text ''Forbidden'' 403"

definition need_auth_v1 :: response where
  "need_auth_v1 = Text ''Not authorized. Open /auth/start first.'' 401"

text \<open>
  \<^verbatim>\<open>App.py\<close>, \<^verbatim>\<open>require_api_key(req)\<close>: the truth value of
  \<^verbatim>\<open>API_KEY and req.headers.get("x-api-key") == API_KEY\<close>.
\<close>

definition require_api_key_v1 :: "config_v1 \<Rightarrow> request \<Rightarrow> bool" where
  "require_api_key_v1 cfg req =
     (case API_KEY_v1 cfg of
        None \<Rightarrow> False
      | Some k \<Rightarrow> if k = [] then False else headers req ''x-api-key'' = Some k)"

definition forbidden_v2 :: response where
  "forbidden_v2 = Json (JObj [(''error'', JStr ''Forbidden'')]) 403"

definition need_auth_v2 :: response where
  "need_auth_v2 = Json (JObj [(''error'', JStr ''Not authorized. Open /auth/start first.'')]) 401"

text \<open>\<^verbatim>\<open>app.py\<close>, the decorator \<^verbatim>\<open>require_api_key(func)\<close>: the wrapper it returns.\<close>

definition require_api_key_v2 :: "config_v2 \<Rightarrow> handler \<Rightarrow> handler" where
  "require_api_key_v2 cfg func req =
     (if API_KEY_v2 cfg \<noteq> [] then
        (let given = (case headers req ''x-api-key'' of None \<Rightarrow> [] | Some g \<Rightarrow> g)
         in if given \<noteq> API_KEY_v2 cfg then io_return forbidden_v2 else func req)
      else func req)"

section \<open>Proxy handlers\<close>

definition arg_or :: "request \<Rightarrow> string \<Rightarrow> string \<Rightarrow> string" where
  "arg_or req name dflt = (case args req name of None \<Rightarrow> dflt | Some v \<Rightarrow> v)"

text \<open>\<^verbatim>\<open>App.py\<close>, \<^verbatim>\<open>gmail_unread\<close>: the body \<^verbatim>\<open>r.text\<close> and the status are relayed.\<close>

definition gmail_unread_v1 :: "config_v1 \<Rightarrow> handler" where
  "gmail_unread_v1 cfg req =
     (if \<not> require_api_key_v1 cfg req then io_return forbidden_v1
      else
        io_bind (get_access_token_v1 cfg) (\<lambda>token.
        if \<not> truthy token then io_return need_auth_v1
        else
          io_bind (requests_api
            \<lparr>http_verb = ''GET'', url = ''https://gmail.googleapis.com/gmail/v1/users/me/messages'',
             bearer = Some token,
             params = [(''q'', JStr (arg_or req ''q'' ''is:unread'')),
                       (''maxResults'', JStr (arg_or req ''maxResults'' ''10''))], json_payload = None\<rparr>) (\<lambda>r.
          io_return (Text (body_text r) (status_code r)))))"

text \<open>
  The other seven guarded handlers of \<^verbatim>\<open>App.py\<close>, and what they need.
  \<^verbatim>\<open>request.get_json(force=True)\<close> raises \<^verbatim>\<open>BadRequest\<close> when the body is not JSON.
\<close>

definition get_json :: "request \<Rightarrow> json io" where
  "get_json req = io_lift (case json_body req of None \<Rightarrow> Inl BadRequest | Some d \<Rightarrow> Inr d)"

text \<open>\<^verbatim>\<open>base64.urlsafe_b64encode\<close> of a byte string.\<close>

definition b64_char :: "nat \<Rightarrow> char" where
  "b64_char n = ''ABCDEFGHIJKLMNOPQRSTUVWXYZabcdefghijklmnopqrstuvwxyz0123456789-_'' ! n"

fun b64_encode :: "nat list \<Rightarrow> string" where
  "b64_encode [] = []"
| "b64_encode [a] = [b64_char (a div 4), b64_char ((a mod 4) * 16), CHR ''='', CHR ''='']"
| "b64_encode [a, b] =
     [b64_char (a div 4), b64_char ((a mod 4) * 16 + b div 16), b64_char ((b mod 16) * 4),
      CHR ''='']"
| "b64_encode (a # b # c # rest) =
     [b64_char (a div 4), b64_char ((a mod 4) * 16 + b div 16),
      b64_char ((b mod 16) * 4 + c div 64), b64_char (c mod 64)] @ b64_encode rest"

definition urlsafe_b64encode :: "string \<Rightarrow> string" where
  "urlsafe_b64encode s = b64_encode (map of_char s)"

definition crlf :: string where
  "crlf = [CHR 0x0D, CHR 0x0A]"

text \<open>
  Iterating over a value, as the list comprehension of \<^verbatim>\<open>cal_create\<close> does: a list gives
  its elements, a dict its keys, a string its characters (a character is one code point,
  so one lead byte and the continuation bytes after it); anything else raises.
\<close>

definition is_continuation :: "char \<Rightarrow> bool" where
  "is_continuation c = (128 \<le> (of_char c :: nat) \<and> (of_char c :: nat) < 192)"

function utf8_chars :: "string \<Rightarrow> string list" where
  "utf8_chars [] = []"
| "utf8_chars (c # cs) =
     (c # takeWhile is_continuation cs) # utf8_chars (dropWhile is_continuation cs)"
  by pat_completeness auto
termination
  by (relation "measure length") (simp_all add: length_dropWhile_le less_Suc_eq_le)

fun py_iter :: "json \<Rightarrow> exn + json list" where
  "py_iter (JArr xs) = Inr xs"
| "py_iter (JObj kvs) = Inr (map (\<lambda>kv. JStr (fst kv)) kvs)"
| "py_iter (JStr s) = Inr (map JStr (utf8_chars s))"
| "py_iter _ = Inl TypeError"

definition BASE_PEOPLE :: string where
  "BASE_PEOPLE = ''https://people.googleapis.com/v1''"

definition gmail_message_v1 :: "config_v1 \<Rightarrow> handler" where
  "gmail_message_v1 cfg req =
     (if \<not> require_api_key_v1 cfg req then io_return forbidden_v1
      else
        io_bind (get_access_token_v1 cfg) (\<lambda>token.
        if \<not> truthy token then io_return need_auth_v1
        else
          (case args req ''id'' of
             None \<Rightarrow> io_return (Text ''Missing id'' 400)
           | Some mid \<Rightarrow>
               if mid = [] then io_return (Text ''Missing id'' 400)
               else
                 io_bind (requests_api
                   \<lparr>http_verb = ''GET'',
                    url = ''https://gmail.googleapis.com/gmail/v1/users/me/messages/'' @ mid,
                    bearer = Some token,
                    params = [(''format'', JStr ''full'')], json_payload = None\<rparr>) (\<lambda>r.
                 io_return (Text (body_text r) (status_code r))))))"

definition gmail_send_v1 :: "runtime \<Rightarrow> config_v1 \<Rightarrow> handler" where
  "gmail_send_v1 py cfg req =
     (if \<not> require_api_key_v1 cfg req then io_return forbidden_v1
      else
        io_bind (get_access_token_v1 cfg) (\<lambda>token.
        if \<not> truthy token then io_return need_auth_v1
        else
          io_bind (get_json req) (\<lambda>data.
          io_bind (io_lift (py_get data ''to'' JNull)) (\<lambda>to'.
          io_bind (io_lift (py_get data ''subject'' (JStr []))) (\<lambda>subject.
          io_bind (io_lift (py_get data ''body'' (JStr []))) (\<lambda>body.
          if \<not> truthy to' then
            io_return (Text (''Missing '' @ [CHR 0x27] @ ''to'' @ [CHR 0x27]) 400)
          else
            (let raw = ''To: '' @ py_format py to' @ crlf
                       @ ''Subject: '' @ py_format py subject @ crlf
                       @ ''Content-Type: text/plain; charset=UTF-8'' @ crlf
                       @ crlf @ py_format py body;
                 b64 = urlsafe_b64encode raw
             in
             io_bind (requests_api
               \<lparr>http_verb = ''POST'',
                url = ''https://gmail.googleapis.com/gmail/v1/users/me/messages/send'',
                bearer = Some token,
                params = [], json_payload = Some (JObj [(''raw'', JStr b64)])\<rparr>) (\<lambda>r.
             io_return (Text (body_text r) (status_code r))))))))))"

definition cal_events_v1 :: "config_v1 \<Rightarrow> handler" where
  "cal_events_v1 cfg req =
     (if \<not> require_api_key_v1 cfg req then io_return forbidden_v1
      else
        io_bind (get_access_token_v1 cfg) (\<lambda>token.
        if \<not> truthy token then io_return need_auth_v1
        else
          (let params =
                 [(''singleEvents'', Some ''true''),
                  (''orderBy'', Some ''startTime''),
                  (''timeMin'', args req ''timeMin''),
                  (''timeMax'', args req ''timeMax''),
                  (''maxResults'', Some (arg_or req ''maxResults'' ''10''))]
           in
           io_bind (requests_api
             \<lparr>http_verb = ''GET'',
              url = ''https://www.googleapis.com/calendar/v3/calendars/primary/events'',
              bearer = Some token,
              params = List.map_filter
                (\<lambda>kv. case snd kv of
                        None \<Rightarrow> None
                      | Some v \<Rightarrow> if v = [] then None else Some (fst kv, JStr v)) params,
              json_payload = None\<rparr>) (\<lambda>r.
           io_return (Text (body_text r) (status_code r))))))"

definition cal_create_v1 :: "config_v1 \<Rightarrow> handler" where
  "cal_create_v1 cfg req =
     (if \<not> require_api_key_v1 cfg req then io_return forbidden_v1
      else
        io_bind (get_access_token_v1 cfg) (\<lambda>token.
        if \<not> truthy token then io_return need_auth_v1
        else
          io_bind (get_json req) (\<lambda>data.
          io_bind (io_lift (py_get data ''summary'' (JStr ''(no title)''))) (\<lambda>summary.
          io_bind (io_lift (py_getitem data ''start'')) (\<lambda>start.
          io_bind (io_lift (py_getitem data ''end'')) (\<lambda>end'.
          io_bind
            (case py_getitem data ''attendees'' of
               Inl _ \<Rightarrow>
                 io_return
                   [(''summary'', summary),
                    (''start'', JObj [(''dateTime'', start)]),
                    (''end'', JObj [(''dateTime'', end')])]
             | Inr attendees \<Rightarrow>
                 io_bind (io_lift (py_iter attendees)) (\<lambda>es.
                 io_return
                   [(''summary'', summary),
                    (''start'', JObj [(''dateTime'', start)]),
                    (''end'', JObj [(''dateTime'', end')]),
                    (''attendees'', JArr (map (\<lambda>e. JObj [(''email'', e)]) es))])) (\<lambda>event.
          io_bind (requests_api
            \<lparr>http_verb = ''POST'',
             url = ''https://www.googleapis.com/calendar/v3/calendars/primary/events'',
             bearer = Some token,
             params = [], json_payload = Some (JObj event)\<rparr>) (\<lambda>r.
          io_return (Text (body_text r) (status_code r))))))))))"

definition contacts_list_v1 :: "runtime \<Rightarrow> config_v1 \<Rightarrow> handler" where
  "contacts_list_v1 py cfg req =
     (if \<not> require_api_key_v1 cfg req then io_return forbidden_v1
      else
        io_bind (get_access_token_v1 cfg) (\<lambda>token.
        if \<not> truthy token then io_return need_auth_v1
        else
          io_bind (io_lift (py_int py (JStr (arg_or req ''limit'' ''50'')))) (\<lambda>limit.
          io_bind (requests_api
            \<lparr>http_verb = ''GET'',
             url = BASE_PEOPLE @ ''/people/me/connections'',
             bearer = Some token,
             params = [(''personFields'', JStr ''names,emailAddresses,phoneNumbers,organizations''),
                       (''pageSize'', JInt limit)],
             json_payload = None\<rparr>) (\<lambda>r.
          io_return (Text (body_text r) (status_code r))))))"

definition contacts_search_v1 :: "runtime \<Rightarrow> config_v1 \<Rightarrow> handler" where
  "contacts_search_v1 py cfg req =
     (if \<not> require_api_key_v1 cfg req then io_return forbidden_v1
      else
        io_bind (get_access_token_v1 cfg) (\<lambda>token.
        if \<not> truthy token then io_return need_auth_v1
        else
          (case args req ''q'' of
             None \<Rightarrow> io_return (Text ''Missing q'' 400)
           | Some q \<Rightarrow>
               if q = [] then io_return (Text ''Missing q'' 400)
               else
                 io_bind (io_lift (py_int py (JStr (arg_or req ''limit'' ''25'')))) (\<lambda>limit.
                 io_bind (requests_api
                   \<lparr>http_verb = ''GET'',
                    url = BASE_PEOPLE @ ''/people:searchContacts'',
                    bearer = Some token,
                    params = [(''query'', JStr q),
                              (''readMask'', JStr ''names,emailAddresses,phoneNumbers,organizations''),
                              (''pageSize'', JInt limit)],
                    json_payload = None\<rparr>) (\<lambda>r.
                 io_return (Text (body_text r) (status_code r)))))))"

definition contacts_get_v1 :: "config_v1 \<Rightarrow> handler" where
  "contacts_get_v1 cfg req =
     (if \<not> require_api_key_v1 cfg req then io_return forbidden_v1
      else
        io_bind (get_access_token_v1 cfg) (\<lambda>token.
        if \<not> truthy token then io_return need_auth_v1
        else
          (case args req ''id'' of
             None \<Rightarrow> io_return (Text ''Missing id'' 400)
           | Some rid \<Rightarrow>
               if rid = [] then io_return (Text ''Missing id'' 400)
               else
                 io_bind (requests_api
                   \<lparr>http_verb = ''GET'',
                    url = BASE_PEOPLE @ ''/'' @ rid,
                    bearer = Some token,
                    params = [(''personFields'', JStr ''names,emailAddresses,phoneNumbers,organizations'')],
                    json_payload = None\<rparr>) (\<lambda>r.
                 io_return (Text (body_text r) (status_code r))))))"

text \<open>
  \<^verbatim>\<open>app.py\<close>, \<^verbatim>\<open>gmail_unread\<close> and \<^verbatim>\<open>gmail_message\<close> (the decorated functions), and the
  handlers the routes are bound to. Of all handlers of \<^verbatim>\<open>app.py\<close> only \<^verbatim>\<open>gmail_unread\<close>
  looks at the status of the downstream response.
\<close>

definition gmail_unread_v2 :: "runtime \<Rightarrow> config_v2 \<Rightarrow> handler" where
  "gmail_unread_v2 py cfg req =
     io_bind (google_headers_v2 py cfg) (\<lambda>hdrs.
     if hdrs = None then io_return need_auth_v2
     else
       (let q = arg_or req ''q'' ''is:unread'';
            max_results = arg_or req ''maxResults'' ''10''
        in
        io_bind (requests_api
          \<lparr>http_verb = ''GET'', url = ''https://gmail.googleapis.com/gmail/v1/users/me/messages'',
           bearer = hdrs,
           params = [(''q'', JStr q), (''maxResults'', JStr max_results)], json_payload = None\<rparr>) (\<lambda>r.
        io_bind
          (if status_code r = 401 then
             io_bind load_tokens_v2 (\<lambda>tokens.
             io_bind (io_lift (py_get tokens ''refresh_token'' JNull)) (\<lambda>rt.
             if truthy rt then
               io_try
                 (io_bind (io_lift (py_getitem tokens ''refresh_token'')) (\<lambda>rt.
                  io_bind (refresh_access_token_v2 py cfg rt) (\<lambda>fresh.
                  io_bind (save_tokens_v2 fresh) (\<lambda>_.
                  io_bind (google_headers_v2 py cfg) (\<lambda>hdrs.
                  requests_api
                    \<lparr>http_verb = ''GET'', url = ''https://gmail.googleapis.com/gmail/v1/users/me/messages'',
                     bearer = hdrs,
                     params = [(''q'', JStr q), (''maxResults'', JStr max_results)], json_payload = None\<rparr>)))))
                 (io_return r)
             else io_return r))
           else io_return r) (\<lambda>r.
        io_bind (response_json r) (\<lambda>j.
        io_return (Json j (status_code r)))))))"

definition gmail_message_v2 :: "runtime \<Rightarrow> config_v2 \<Rightarrow> handler" where
  "gmail_message_v2 py cfg req =
     io_bind (google_headers_v2 py cfg) (\<lambda>hdrs.
     if hdrs = None then io_return need_auth_v2
     else
       (case args req ''id'' of
          None \<Rightarrow> io_return (Json (JObj [(''error'', JStr ''id required'')]) 400)
        | Some mid \<Rightarrow>
            if mid = [] then io_return (Json (JObj [(''error'', JStr ''id required'')]) 400)
            else
              io_bind (requests_api
                \<lparr>http_verb = ''GET'', url = ''https://gmail.googleapis.com/gmail/v1/users/me/messages/'' @ mid,
                 bearer = hdrs,
                 params = [(''format'', JStr ''full'')], json_payload = None\<rparr>) (\<lambda>r.
              io_bind (response_json r) (\<lambda>j.
              io_return (Json j (status_code r))))))"

definition route_gmail_unread_v2 :: "runtime \<Rightarrow> config_v2 \<Rightarrow> handler" where
  "route_gmail_unread_v2 py cfg = require_api_key_v2 cfg (gmail_unread_v2 py cfg)"

definition route_gmail_message_v2 :: "runtime \<Rightarrow> config_v2 \<Rightarrow> handler" where
  "route_gmail_message_v2 py cfg = require_api_key_v2 cfg (gmail_message_v2 py cfg)"

section \<open>Authorization flow\<close>

text \<open>\<^verbatim>\<open>App.py\<close>, \<^verbatim>\<open>auth_callback\<close> and the form it posts.\<close>

definition exchange_data_v1 :: "config_v1 \<Rightarrow> string \<Rightarrow> (string \<times> json) list" where
  "exchange_data_v1 cfg code =
     [(''code'', JStr code),
      (''client_id'', env_json (CLIENT_ID_v1 cfg)),
      (''client_secret'', env_json (CLIENT_SECRET_v1 cfg)),
      (''redirect_uri'', env_json (REDIRECT_URI_v1 cfg)),
      (''grant_type'', JStr ''authorization_code'')]"

definition auth_callback_v1 :: "config_v1 \<Rightarrow> handler" where
  "auth_callback_v1 cfg req =
     (case args req ''code'' of
        None \<Rightarrow> io_return (Text ''Missing code'' 400)
      | Some code \<Rightarrow>
          if code = [] then io_return (Text ''Missing code'' 400)
          else
            io_bind (requests_post_token (exchange_data_v1 cfg code)) (\<lambda>r.
            io_bind (raise_for_status r) (\<lambda>_.
            io_bind (response_json r) (\<lambda>j.
            io_bind time_time (\<lambda>now.
            io_bind (io_lift (py_get j ''expires_in'' (JInt 3500))) (\<lambda>ttl.
            io_bind (io_lift (py_number ttl)) (\<lambda>ttl.
            io_bind (io_lift (py_setitem j ''expires_at'' (JInt (now + ttl)))) (\<lambda>j.
            io_bind (save_tokens_v1 j) (\<lambda>_.
            io_return (Text
              ''Google account gekoppeld. Je kunt nu /gmail/unread, /calendar/events of /contacts/list testen.''
              200))))))))))"

text \<open>
  \<^verbatim>\<open>app.py\<close>, \<^verbatim>\<open>auth_callback\<close>. The message of a caught exception, \<^verbatim>\<open>str(e)\<close>, comes from the
  run time.
\<close>

definition auth_callback_v2 :: "runtime \<Rightarrow> config_v2 \<Rightarrow> handler" where
  "auth_callback_v2 py cfg req w =
     (case args req ''code'' of
        None \<Rightarrow> (Inr (Text ''Missing code'' 400), w)
      | Some code \<Rightarrow>
          if code = [] then (Inr (Text ''Missing code'' 400), w)
          else
            (case io_bind (exchange_code_for_tokens_v2 py cfg code) save_tokens_v2 w of
               (Inr _, w') \<Rightarrow>
                 (Inr (Text
                   ''Google account gekoppeld. Je kunt nu /gmail/unread, /calendar/events of /contacts/list testen.''
                   200), w')
             | (Inl e, w') \<Rightarrow> (Inr (Text (''Error exchanging code: '' @ str_of_exn py e) 400), w')))"

subsection \<open>The consent URL\<close>

text \<open>
  \<^verbatim>\<open>urllib.parse.urlencode\<close> of a dict of strings: each key and value goes through
  \<^verbatim>\<open>quote_plus\<close>, which keeps letters, digits and \<^verbatim>\<open>_.-~\<close>, turns a space into \<^verbatim>\<open>+\<close> and
  writes every other byte as \<^verbatim>\<open>%XX\<close>.
\<close>

definition always_safe :: "char \<Rightarrow> bool" where
  "always_safe c =
     (let n = (of_char c :: nat)
      in (65 \<le> n \<and> n \<le> 90) \<or> (97 \<le> n \<and> n \<le> 122) \<or> (48 \<le> n \<and> n \<le> 57)
         \<or> c = CHR ''_'' \<or> c = CHR ''.'' \<or> c = CHR ''-'' \<or> c = CHR ''~'')"

definition hex_digit :: "nat \<Rightarrow> char" where
  "hex_digit n = (if n < 10 then char_of (48 + n) else char_of (55 + n))"

definition quote_char :: "char \<Rightarrow> string" where
  "quote_char c =
     (if always_safe c then [c]
      else if c = CHR '' '' then ''+''
      else [CHR ''%'', hex_digit ((of_char c :: nat) div 16), hex_digit ((of_char c :: nat) mod 16)])"

definition quote_plus :: "string \<Rightarrow> string" where
  "quote_plus s = concat (map quote_char s)"

fun join :: "string \<Rightarrow> string list \<Rightarrow> string" where
  "join sep [] = []"
| "join sep [x] = x"
| "join sep (x # y # ys) = x @ sep @ join sep (y # ys)"

definition encode_pair :: "string \<times> string \<Rightarrow> string" where
  "encode_pair p = quote_plus (fst p) @ ''='' @ quote_plus (snd p)"

definition urlencode :: "(string \<times> string) list \<Rightarrow> string" where
  "urlencode query = join ''&'' (map encode_pair query)"

text \<open>\<^verbatim>\<open>str(x)\<close> of a global that is a string or \<^verbatim>\<open>None\<close>.\<close>

definition str_env :: "string option \<Rightarrow> string" where
  "str_env v = (case v of None \<Rightarrow> ''None'' | Some s \<Rightarrow> s)"

text \<open>\<^verbatim>\<open>App.py\<close>, \<^verbatim>\<open>auth_start\<close>.\<close>

definition auth_start_v1 :: "config_v1 \<Rightarrow> handler" where
  "auth_start_v1 cfg req =
     io_return (Redirect
       (''https://accounts.google.com/o/oauth2/auth?'' @ urlencode
          [(''client_id'', str_env (CLIENT_ID_v1 cfg)),
           (''redirect_uri'', str_env (REDIRECT_URI_v1 cfg)),
           (''response_type'', ''code''),
           (''access_type'', ''offline''),
           (''prompt'', ''consent''),
           (''scope'', SCOPES_v1 cfg)])
       302)"

text \<open>\<^verbatim>\<open>app.py\<close>, \<^verbatim>\<open>auth_start\<close> (the decorated function) and the handler of the route.\<close>

definition auth_start_v2 :: "config_v2 \<Rightarrow> handler" where
  "auth_start_v2 cfg req =
     io_return (Redirect
       (''https://accounts.google.com/o/oauth2/auth?'' @ urlencode
          [(''response_type'', ''code''),
           (''client_id'', CLIENT_ID_v2 cfg),
           (''redirect_uri'', REDIRECT_URI_v2 cfg),
           (''scope'', join '' '' (SCOPES_v2 cfg)),
           (''access_type'', ''offline''),
           (''prompt'', ''consent''),
           (''include_granted_scopes'', ''true'')])
       302)"

definition route_auth_start_v2 :: "config_v2 \<Rightarrow> handler" where
  "route_auth_start_v2 cfg = require_api_key_v2 cfg (auth_start_v2 cfg)"

text \<open>
  Reading a URL back: the query string is what follows the first \<^verbatim>\<open>?\<close>; its parameters
  are separated by \<^verbatim>\<open>&\<close>, and each is a name and a value separated by the first \<^verbatim>\<open>=\<close>.
\<close>

definition query_string :: "string \<Rightarrow> string" where
  "query_string u = drop 1 (dropWhile (\<lambda>c. c \<noteq> CHR ''?'') u)"

definition query_pairs :: "string \<Rightarrow> (string \<times> string) list" where
  "query_pairs u =
     map (\<lambda>p. (takeWhile (\<lambda>c. c \<noteq> CHR ''='') p, drop 1 (dropWhile (\<lambda>c. c \<noteq> CHR ''='') p)))
       (split_on CHR ''&'' (query_string u))"

text \<open>A character that delimits nothing in a URL: none of \<^verbatim>\<open>&\<close>, \<^verbatim>\<open>=\<close> and \<^verbatim>\<open>?\<close>.\<close>

definition plain :: "char \<Rightarrow> bool" where
  "plain c = (c \<noteq> CHR ''&'' \<and> c \<noteq> CHR ''='' \<and> c \<noteq> CHR ''?'')"

text \<open>The refresh token in the token file, if the file holds a credential set that has one.\<close>

definition stored_refresh_token :: "world \<Rightarrow> json option" where
  "stored_refresh_token w =
     (case tokens_file w of Content (JObj t) \<Rightarrow> map_of t ''refresh_token'' | _ \<Rightarrow> None)"

section \<open>Sample configurations and worlds\<close>

text \<open>
  Concrete inputs at which the theorems below are instantiated: a stored credential set
  and a world built from the content of the token file, the clock and the behaviour of
  the two servers.
\<close>

definition stored_set :: "json \<Rightarrow> int \<Rightarrow> json" where
  "stored_set rt e =
     JObj [(''access_token'', JStr ''at-old''), (''refresh_token'', rt), (''expires_at'', JInt e)]"

definition make_world ::
  "file_state \<Rightarrow> int \<Rightarrow> (nat \<Rightarrow> nat \<times> outcome) \<Rightarrow> (nat \<Rightarrow> nat \<times> outcome) \<Rightarrow> world" where
  "make_world f now tok api =
     \<lparr>tokens_file = f, clock = now, token_server = tok, api_server = api,
      token_log = [], api_log = []\<rparr>"

text \<open>
  A run time for the examples. No example reaches \<^verbatim>\<open>int()\<close> on a string or \<^verbatim>\<open>str()\<close> on an
  exception or a value, so what the three functions return there plays no part.
\<close>

definition sample_runtime :: runtime where
  "sample_runtime =
     \<lparr>int_of_str = (\<lambda>s. None), str_of_exn = (\<lambda>e. ''error''), str_of_json = (\<lambda>v. ''value'')\<rparr>"

definition sample_cfg_v1 :: config_v1 where
  "sample_cfg_v1 =
     \<lparr>CLIENT_ID_v1 = Some ''client-1'', CLIENT_SECRET_v1 = Some ''s3cret'',
      REDIRECT_URI_v1 = Some ''https://broker.example/auth/callback'',
      SCOPES_v1 = ''https://mail.google.com/ https://www.googleapis.com/auth/calendar'',
      API_KEY_v1 = None\<rparr>"

definition sample_cfg_v2 :: config_v2 where
  "sample_cfg_v2 =
     \<lparr>CLIENT_ID_v2 = ''client-1'', CLIENT_SECRET_v2 = ''s3cret'',
      REDIRECT_URI_v2 = ''https://broker.example/auth/callback'',
      SCOPES_v2 = [''https://mail.google.com/'', ''https://www.googleapis.com/auth/calendar''],
      API_KEY_v2 = []\<rparr>"

text \<open>
  A provider that is unreachable, one that rejects every request, one that grants a new
  access token without a refresh token, one that also issues a new refresh token, and one
  whose answer has a success status but no access token.
\<close>

definition server_down :: "nat \<Rightarrow> nat \<times> outcome" where
  "server_down n = (20, Failed)"

definition reject_response :: http_response where
  \<open>reject_response =
     \<lparr>status_code = 400, body_text = ''{"error": "invalid_grant"}'',
      decoded = Some (JObj [(''error'', JStr ''invalid_grant'')])\<rparr>\<close>

definition server_rejects :: "nat \<Rightarrow> nat \<times> outcome" where
  "server_rejects n = (1, Answered reject_response)"

definition grant_body :: "(string \<times> json) list" where
  "grant_body = [(''access_token'', JStr ''at-new''), (''expires_in'', JInt 3600)]"

definition grant_response :: http_response where
  \<open>grant_response =
     \<lparr>status_code = 200, body_text = ''{"access_token": "at-new", "expires_in": 3600}'',
      decoded = Some (JObj grant_body)\<rparr>\<close>

definition server_grants :: "nat \<Rightarrow> nat \<times> outcome" where
  "server_grants n = (1, Answered grant_response)"

definition rotate_body :: "(string \<times> json) list" where
  "rotate_body =
     [(''access_token'', JStr ''at-new''), (''refresh_token'', JStr ''rt-new''),
      (''expires_in'', JInt 3600)]"

definition rotate_response :: http_response where
  \<open>rotate_response =
     \<lparr>status_code = 200,
      body_text = ''{"access_token": "at-new", "refresh_token": "rt-new", "expires_in": 3600}'',
      decoded = Some (JObj rotate_body)\<rparr>\<close>

definition server_rotates :: "nat \<Rightarrow> nat \<times> outcome" where
  "server_rotates n = (1, Answered rotate_response)"

definition empty_grant_response :: http_response where
  \<open>empty_grant_response =
     \<lparr>status_code = 200, body_text = ''{"expires_in": 3600}'',
      decoded = Some (JObj [(''expires_in'', JInt 3600)])\<rparr>\<close>

definition server_grants_nothing :: "nat \<Rightarrow> nat \<times> outcome" where
  "server_grants_nothing n = (1, Answered empty_grant_response)"

text \<open>
  The token files used in the examples: a credential set that expired at time 500, and
  one that is valid until 5000.
\<close>

definition valid_set :: "(string \<times> json) list" where
  "valid_set =
     [(''access_token'', JStr ''at-old''), (''refresh_token'', JStr ''rt-old''),
      (''expires_at'', JInt 5000)]"

definition expired_set :: "(string \<times> json) list" where
  "expired_set =
     [(''access_token'', JStr ''at-old''), (''refresh_token'', JStr ''rt-old''),
      (''expires_at'', JInt 500)]"

text \<open>
  A resource endpoint that answers 401 to every request, and one that answers 401 to the
  first request and 200 from then on (the access token in use has been revoked, a fresh
  one works); a request for one message and a request for the unread list.
\<close>

definition unauthorized_body :: json where
  "unauthorized_body =
     JObj [(''error'', JObj [(''code'', JInt 401), (''status'', JStr ''UNAUTHENTICATED'')])]"

definition unauthorized_response :: http_response where
  \<open>unauthorized_response =
     \<lparr>status_code = 401,
      body_text = ''{"error": {"code": 401, "status": "UNAUTHENTICATED"}}'',
      decoded = Some unauthorized_body\<rparr>\<close>

definition messages_body :: json where
  "messages_body = JObj [(''messages'', JArr [JObj [(''id'', JStr ''m1'')]])]"

definition messages_response :: http_response where
  \<open>messages_response =
     \<lparr>status_code = 200, body_text = ''{"messages": [{"id": "m1"}]}'',
      decoded = Some messages_body\<rparr>\<close>

definition api_rejects_once :: "nat \<Rightarrow> nat \<times> outcome" where
  "api_rejects_once n =
     (1, Answered (if n = 0 then unauthorized_response else messages_response))"

definition message_request :: request where
  "message_request = \<lparr>headers = Map.empty, args = [''id'' \<mapsto> ''m1''], json_body = None\<rparr>"

definition unread_request :: request where
  "unread_request = \<lparr>headers = Map.empty, args = Map.empty, json_body = None\<rparr>"

section \<open>Auxiliary facts\<close>

lemmas io_defs = io_return_def io_lift_def io_bind_def io_try_def time_time_def

lemma py_setitem_Inr:
  "py_setitem j k v = Inr j' \<longleftrightarrow> (\<exists>kvs. j = JObj kvs \<and> j' = JObj (AList.update k v kvs))"
  by (cases j) auto

lemma py_get_Inr:
  "py_get j k d = Inr v \<longleftrightarrow> (\<exists>kvs. j = JObj kvs \<and> v = get_or kvs k d)"
  by (cases j) auto

lemma py_getitem_Inr:
  "py_getitem j k = Inr v \<longleftrightarrow> (\<exists>kvs. j = JObj kvs \<and> map_of kvs k = Some v)"
  by (cases j) (auto split: option.splits)

lemma get_or_update:
  "get_or (AList.update k v kvs) k' d = (if k' = k then v else get_or kvs k' d)"
  by (simp add: get_or_def update_conv')

lemma truthy_get_or:
  "truthy (get_or kvs k JNull) \<Longrightarrow> map_of kvs k = Some (get_or kvs k JNull)"
  by (auto simp: get_or_def split: option.splits)

lemma posted_fields:
  "tokens_file (posted data w) = tokens_file w"
  "token_log (posted data w) = token_log w @ [data]"
  "api_log (posted data w) = api_log w"
  "clock (posted data w) = clock w + int (fst (token_server w (length (token_log w))))"
  "token_server (posted data w) = token_server w"
  "api_server (posted data w) = api_server w"
  by (simp_all add: posted_def)

lemma refresh_v2_world:
  "snd (refresh_access_token_v2 py cfg rt w) = posted (refresh_data_v2 cfg rt) w"
  by (simp add: refresh_access_token_v2_def io_defs requests_post_token_def raise_for_status_def
        response_json_def split: outcome.splits sum.splits option.splits)

lemma refresh_v2_Inr:
  "fst (refresh_access_token_v2 py cfg rt w) = Inr tj \<longleftrightarrow>
     (\<exists>r kvs ttl.
        snd (token_server w (length (token_log w))) = Answered r
      \<and> \<not> (400 \<le> status_code r \<and> status_code r < 600)
      \<and> decoded r = Some (JObj kvs)
      \<and> py_int py (get_or kvs ''expires_in'' (JInt 3600)) = Inr ttl
      \<and> tj = JObj (AList.update ''expires_at''
                (JInt (clock (posted (refresh_data_v2 cfg rt) w) + ttl - 60))
                (AList.update ''refresh_token'' rt kvs)))"
  apply (simp add: refresh_access_token_v2_def io_defs requests_post_token_def raise_for_status_def
        response_json_def split: outcome.splits sum.splits option.splits)
  apply (auto simp: py_setitem_Inr py_get_Inr get_or_update)
  done

lemma exchange_v2_world:
  "snd (exchange_code_for_tokens_v2 py cfg code w) = posted (exchange_data_v2 cfg code) w"
  by (simp add: exchange_code_for_tokens_v2_def io_defs requests_post_token_def raise_for_status_def
        response_json_def split: outcome.splits sum.splits option.splits)

lemma exchange_v2_Inr:
  "fst (exchange_code_for_tokens_v2 py cfg code w) = Inr tj \<longleftrightarrow>
     (\<exists>r kvs ttl.
        snd (token_server w (length (token_log w))) = Answered r
      \<and> \<not> (400 \<le> status_code r \<and> status_code r < 600)
      \<and> decoded r = Some (JObj kvs)
      \<and> py_int py (get_or kvs ''expires_in'' (JInt 3600)) = Inr ttl
      \<and> tj = JObj (AList.update ''expires_at''
                (JInt (clock (posted (exchange_data_v2 cfg code) w) + ttl - 60)) kvs))"
  apply (simp add: exchange_code_for_tokens_v2_def io_defs requests_post_token_def raise_for_status_def
        response_json_def split: outcome.splits sum.splits option.splits)
  apply (auto simp: py_setitem_Inr py_get_Inr get_or_update)
  done

lemma refresh_v1_Inr:
  "refresh_access_token_v1 cfg rt w = (Inr tj, w') \<longleftrightarrow>
     (\<exists>r kvs ttl.
        snd (token_server w (length (token_log w))) = Answered r
      \<and> \<not> (400 \<le> status_code r \<and> status_code r < 600)
      \<and> decoded r = Some (JObj kvs)
      \<and> py_number (get_or kvs ''expires_in'' (JInt 3500)) = Inr ttl
      \<and> tj = JObj (AList.update ''expires_at''
                (JInt (clock (posted (refresh_data_v1 cfg rt) w) + ttl))
                (AList.update ''refresh_token'' rt kvs))
      \<and> w' = (posted (refresh_data_v1 cfg rt) w)\<lparr>tokens_file := Content tj\<rparr>)"
  apply (simp add: refresh_access_token_v1_def io_defs requests_post_token_def raise_for_status_def
        response_json_def save_tokens_v1_def split: outcome.splits sum.splits option.splits)
  apply (auto simp: py_setitem_Inr py_get_Inr get_or_update)
  done

lemma refresh_v1_Inl:
  "fst (refresh_access_token_v1 cfg rt w) = Inl e \<Longrightarrow>
     snd (refresh_access_token_v1 cfg rt w) = posted (refresh_data_v1 cfg rt) w"
  by (auto simp add: refresh_access_token_v1_def io_defs requests_post_token_def raise_for_status_def
        response_json_def save_tokens_v1_def split: outcome.splits sum.splits option.splits if_splits)


lemma load_tokens_v2_eq:
  "load_tokens_v2 w =
     (Inr (case tokens_file w of NoFile \<Rightarrow> JObj [] | Corrupt \<Rightarrow> JObj [] | Content j \<Rightarrow> j), w)"
  by (simp add: load_tokens_v2_def io_defs split: file_state.splits)

lemma google_headers_v2_absent:
  "tokens_file w = NoFile \<or> tokens_file w = Corrupt \<or> tokens_file w = Content (JObj []) \<Longrightarrow>
     google_headers_v2 py cfg w = (Inr None, w)"
  by (auto simp: google_headers_v2_def load_tokens_v2_eq io_defs)

lemma google_headers_v2_fresh:
  assumes "tokens_file w = Content (JObj t)" "t \<noteq> []"
      and "py_int py (get_or t ''expires_at'' (JInt 0)) = Inr e" "clock w < e"
  shows "google_headers_v2 py cfg w =
           (Inr (if truthy (get_or t ''access_token'' JNull)
                 then Some (get_or t ''access_token'' JNull) else None), w)"
  using assms by (simp add: google_headers_v2_def load_tokens_v2_eq io_defs)

lemma google_headers_v2_no_refresh_token:
  assumes "tokens_file w = Content (JObj t)" "t \<noteq> []"
      and "py_int py (get_or t ''expires_at'' (JInt 0)) = Inr e" "e \<le> clock w"
      and "\<not> truthy (get_or t ''refresh_token'' JNull)"
  shows "google_headers_v2 py cfg w = (Inr None, w)"
  using assms by (simp add: google_headers_v2_def load_tokens_v2_eq io_defs)

lemma google_headers_v2_refresh:
  assumes "tokens_file w = Content (JObj t)"
      and "py_int py (get_or t ''expires_at'' (JInt 0)) = Inr e" "e \<le> clock w"
      and "truthy (get_or t ''refresh_token'' JNull)"
  shows "google_headers_v2 py cfg w =
     (case fst (refresh_access_token_v2 py cfg (get_or t ''refresh_token'' JNull) w) of
        Inl x \<Rightarrow> (Inr None, posted (refresh_data_v2 cfg (get_or t ''refresh_token'' JNull)) w)
      | Inr fresh \<Rightarrow>
          (Inr (case py_get fresh ''access_token'' JNull of
                  Inl x \<Rightarrow> None
                | Inr a \<Rightarrow> if truthy a then Some a else None),
           (posted (refresh_data_v2 cfg (get_or t ''refresh_token'' JNull)) w)
             \<lparr>tokens_file := Content fresh\<rparr>))"
proof -
  let ?rt = "get_or t ''refresh_token'' JNull"
  have t: "t \<noteq> []" using assms(4) by (auto simp: get_or_def)
  have rt: "map_of t ''refresh_token'' = Some ?rt" using assms(4) by (rule truthy_get_or)
  obtain res w' where R: "refresh_access_token_v2 py cfg ?rt w = (res, w')" by force
  have w': "w' = posted (refresh_data_v2 cfg ?rt) w" using refresh_v2_world[of py cfg ?rt w] R by simp
  show ?thesis
  proof (cases res)
    case (Inl x)
    then show ?thesis using assms t rt R w'
      by (simp add: google_headers_v2_def load_tokens_v2_eq io_defs)
  next
    case (Inr fresh)
    then have "fst (refresh_access_token_v2 py cfg ?rt w) = Inr fresh" using R by simp
    then obtain kvs where "fresh = JObj kvs" unfolding refresh_v2_Inr by blast
    then show ?thesis using assms t rt R w' Inr
      by (simp add: google_headers_v2_def load_tokens_v2_eq io_defs save_tokens_v2_def)
  qed
qed


lemma load_tokens_v1_eq:
  "load_tokens_v1 w =
     (case tokens_file w of NoFile \<Rightarrow> Inr JNull | Corrupt \<Rightarrow> Inl JSONDecodeError | Content j \<Rightarrow> Inr j, w)"
  by (simp add: load_tokens_v1_def split: file_state.splits)

lemma get_access_token_v1_absent:
  "tokens_file w = NoFile \<or> tokens_file w = Content (JObj []) \<Longrightarrow>
     get_access_token_v1 cfg w = (Inr JNull, w)"
  by (auto simp: get_access_token_v1_def load_tokens_v1_eq io_defs)

lemma get_access_token_v1_fresh:
  assumes "tokens_file w = Content (JObj t)" "t \<noteq> []"
      and "py_number (get_or t ''expires_at'' (JInt 0)) = Inr e" "clock w < e - 60"
  shows "get_access_token_v1 cfg w = (py_getitem (JObj t) ''access_token'', w)"
  using assms by (simp add: get_access_token_v1_def load_tokens_v1_eq io_defs)

lemma get_access_token_v1_refresh:
  assumes "tokens_file w = Content (JObj t)"
      and "py_number (get_or t ''expires_at'' (JInt 0)) = Inr e" "e - 60 \<le> clock w"
      and "map_of t ''refresh_token'' = Some rt"
  shows "get_access_token_v1 cfg w =
     (case refresh_access_token_v1 cfg rt w of
        (Inl x, w') \<Rightarrow> (Inl x, w')
      | (Inr fresh, w') \<Rightarrow> (py_getitem fresh ''access_token'', w'))"
proof -
  have "t \<noteq> []" using assms(4) by auto
  then show ?thesis using assms
    by (simp add: get_access_token_v1_def load_tokens_v1_eq io_defs split: prod.splits sum.splits)
qed

lemmas sample_defs = stored_set_def make_world_def sample_runtime_def sample_cfg_v1_def sample_cfg_v2_def
  server_down_def server_rejects_def server_grants_def server_rotates_def server_grants_nothing_def
  reject_response_def grant_response_def grant_body_def rotate_response_def rotate_body_def
  empty_grant_response_def expired_set_def valid_set_def unauthorized_body_def unauthorized_response_def
  messages_body_def messages_response_def api_rejects_once_def message_request_def
  unread_request_def

lemmas run_defs = io_defs posted_def called_def requests_post_token_def requests_api_def
  raise_for_status_def response_json_def load_tokens_v1_def load_tokens_v2_def
  save_tokens_v1_def save_tokens_v2_def refresh_data_v1_def refresh_data_v2_def
  exchange_data_v1_def exchange_data_v2_def env_json_def get_or_def
  refresh_access_token_v1_def refresh_access_token_v2_def exchange_code_for_tokens_v2_def
  get_access_token_v1_def google_headers_v2_def

section \<open>The credential store\<close>

text \<open>
  \<^verbatim>\<open>app.py\<close>: \<^verbatim>\<open>load_tokens\<close> never raises; without a file and with an unreadable file it
  returns the empty dict, which every caller treats as "no credential".
\<close>

lemma load_tokens_v2_absent:
  "tokens_file w = NoFile \<or> tokens_file w = Corrupt \<Longrightarrow> load_tokens_v2 w = (Inr (JObj []), w)"
  by (auto simp: load_tokens_v2_eq)

text \<open>
  Claim C6: whenever no record exists or the stored record is unreadable or corrupt,
  \<^verbatim>\<open>load()\<close> returns "absent" instead of raising. \<^verbatim>\<open>load_tokens\<close> of \<^verbatim>\<open>App.py\<close> does
  not: on a token file that \<^verbatim>\<open>json.load\<close> rejects, the exception leaves the function.
\<close>

theorem load_tokens_v1_raises_on_corrupt_file:
  "load_tokens_v1 (make_world Corrupt 1000 server_down server_down)
     = (Inl JSONDecodeError, make_world Corrupt 1000 server_down server_down)"
  by (simp add: load_tokens_v1_def make_world_def)

section \<open>The credential manager\<close>

text \<open>
  Claim C10: for a stored credential set that is expired and has no \<^verbatim>\<open>refresh_token\<close>
  field, the access-token lookup returns "absent" and does not raise a missing-key
  error. \<^verbatim>\<open>get_access_token\<close> of \<^verbatim>\<open>App.py\<close> reads \<^verbatim>\<open>t["refresh_token"]\<close> unguarded and
  raises \<^verbatim>\<open>KeyError\<close>, before any request to the provider.
\<close>

theorem get_access_token_v1_missing_refresh_token_raises:
  "get_access_token_v1 sample_cfg_v1
     (make_world (Content (JObj [(''access_token'', JStr ''at-old''), (''expires_at'', JInt 500)]))
        1000 server_grants server_down)
   = (Inl KeyError,
      make_world (Content (JObj [(''access_token'', JStr ''at-old''), (''expires_at'', JInt 500)]))
        1000 server_grants server_down)"
  by (simp add: run_defs sample_defs)

text \<open>
  \<^verbatim>\<open>_google_headers\<close> of \<^verbatim>\<open>app.py\<close> guards the same read: an expired set without a
  refresh token gives \<^verbatim>\<open>None\<close>, and the provider is not contacted.
\<close>

lemma google_headers_v2_missing_refresh_token:
  assumes "tokens_file w = Content (JObj t)" "t \<noteq> []"
      and "py_int py (get_or t ''expires_at'' (JInt 0)) = Inr e" "e \<le> clock w"
      and "map_of t ''refresh_token'' = None"
  shows "google_headers_v2 py cfg w = (Inr None, w)"
proof -
  have "\<not> truthy (get_or t ''refresh_token'' JNull)"
    using assms(5) by (simp add: get_or_def)
  with assms show ?thesis
    by (simp add: google_headers_v2_no_refresh_token)
qed

text \<open>
  Claim C2: the access-token lookup returns "absent" when nothing is stored, makes one
  refresh attempt for an expired set and returns "absent", without raising, when that
  attempt fails, and returns the stored token without any network call for a set that is
  not yet due. \<^verbatim>\<open>get_access_token\<close> of \<^verbatim>\<open>App.py\<close> calls \<^verbatim>\<open>refresh_access_token\<close> with no
  handler around it: when the provider rejects the refresh, the \<^verbatim>\<open>HTTPError\<close> of
  \<^verbatim>\<open>raise_for_status\<close> leaves \<^verbatim>\<open>get_access_token\<close>, after the one request.
\<close>

theorem get_access_token_v1_failed_refresh_raises:
  "get_access_token_v1 sample_cfg_v1
     (make_world (Content (JObj expired_set)) 1000 server_rejects server_down)
   = (Inl HTTPError,
      posted (refresh_data_v1 sample_cfg_v1 (JStr ''rt-old''))
        (make_world (Content (JObj expired_set)) 1000 server_rejects server_down))"
  by (simp add: run_defs sample_defs)

text \<open>
  \<^verbatim>\<open>_google_headers\<close> of \<^verbatim>\<open>app.py\<close> meets the contract: a failed refresh, whatever the
  exception, ends in \<^verbatim>\<open>None\<close> after exactly one request to the token endpoint.
\<close>

lemma google_headers_v2_failed_refresh:
  assumes "tokens_file w = Content (JObj t)"
      and "py_int py (get_or t ''expires_at'' (JInt 0)) = Inr e" "e \<le> clock w"
      and "truthy (get_or t ''refresh_token'' JNull)"
      and "fst (refresh_access_token_v2 py cfg (get_or t ''refresh_token'' JNull) w) = Inl x"
  shows "google_headers_v2 py cfg w
           = (Inr None, posted (refresh_data_v2 cfg (get_or t ''refresh_token'' JNull)) w)"
  using assms by (simp add: google_headers_v2_refresh)

subsection \<open>What a refresh does to the refresh token\<close>

lemma refresh_v2_Inr_eq:
  assumes "snd (token_server w (length (token_log w))) = Answered r"
      and "\<not> (400 \<le> status_code r \<and> status_code r < 600)"
      and "decoded r = Some (JObj j)"
      and "py_int py (get_or j ''expires_in'' (JInt 3600)) = Inr ttl"
  shows "fst (refresh_access_token_v2 py cfg rt w) =
           Inr (JObj (AList.update ''expires_at''
                  (JInt (clock (posted (refresh_data_v2 cfg rt) w) + ttl - 60))
                  (AList.update ''refresh_token'' rt j)))"
  using assms unfolding refresh_v2_Inr by simp

lemma refresh_v1_Inr_eq:
  assumes "snd (token_server w (length (token_log w))) = Answered r"
      and "\<not> (400 \<le> status_code r \<and> status_code r < 600)"
      and "decoded r = Some (JObj j)"
      and "py_number (get_or j ''expires_in'' (JInt 3500)) = Inr ttl"
  shows "refresh_access_token_v1 cfg rt w =
           (Inr (JObj (AList.update ''expires_at''
                  (JInt (clock (posted (refresh_data_v1 cfg rt) w) + ttl))
                  (AList.update ''refresh_token'' rt j))),
            (posted (refresh_data_v1 cfg rt) w)
              \<lparr>tokens_file := Content (JObj (AList.update ''expires_at''
                  (JInt (clock (posted (refresh_data_v1 cfg rt) w) + ttl))
                  (AList.update ''refresh_token'' rt j)))\<rparr>)"
  using assms unfolding refresh_v1_Inr by simp

text \<open>
  Whatever \<^verbatim>\<open>_google_headers\<close> and \<^verbatim>\<open>gmail_unread\<close> of \<^verbatim>\<open>app.py\<close> do, a refresh token that is
  in the token file before is in the token file after. The forced refresh of
  \<^verbatim>\<open>gmail_unread\<close>, made when the resource endpoint answers 401 to a credential that is not
  yet due, persists the answer with the stored refresh token put in.
\<close>

lemma stored_refresh_token_Some:
  "stored_refresh_token w = Some rt \<longleftrightarrow>
     (\<exists>t. tokens_file w = Content (JObj t) \<and> map_of t ''refresh_token'' = Some rt)"
  by (auto simp: stored_refresh_token_def split: file_state.splits json.splits)

lemma stored_refresh_token_frame:
  "stored_refresh_token (posted d w) = stored_refresh_token w"
  "stored_refresh_token (called rq w) = stored_refresh_token w"
  by (simp_all add: stored_refresh_token_def posted_def called_def)

lemma refresh_v2_result_token:
  "fst (refresh_access_token_v2 py cfg rt w) = Inr fresh \<Longrightarrow>
     \<exists>kvs. fresh = JObj kvs \<and> map_of kvs ''refresh_token'' = Some rt"
  unfolding refresh_v2_Inr by (auto simp: update_conv')

lemma google_headers_v2_keeps_refresh_token:
  assumes "stored_refresh_token w = Some rt"
  shows "stored_refresh_token (snd (google_headers_v2 py cfg w)) = Some rt"
proof -
  from assms obtain t where t: "tokens_file w = Content (JObj t)"
      "map_of t ''refresh_token'' = Some rt"
    unfolding stored_refresh_token_Some by blast
  have ne: "t \<noteq> []" using t(2) by auto
  have g: "get_or t ''refresh_token'' JNull = rt" using t(2) by (simp add: get_or_def)
  show ?thesis
  proof (cases "py_int py (get_or t ''expires_at'' (JInt 0))")
    case (Inl x)
    then have "google_headers_v2 py cfg w = (Inl x, w)"
      using t ne by (simp add: google_headers_v2_def load_tokens_v2_eq io_defs)
    then show ?thesis using assms by simp
  next
    case (Inr e)
    show ?thesis
    proof (cases "e \<le> clock w")
      case False
      then show ?thesis
        using google_headers_v2_fresh[of w t py e cfg] t ne Inr assms by simp
    next
      case True
      show ?thesis
      proof (cases "truthy rt")
        case False
        then show ?thesis
          using google_headers_v2_no_refresh_token[of w t py e cfg] t ne Inr True g assms by simp
      next
        case tr: True
        note R = google_headers_v2_refresh[of w t py e cfg]
        show ?thesis
        proof (cases "fst (refresh_access_token_v2 py cfg rt w)")
          case (Inl x)
          then show ?thesis
            using R t Inr True g tr assms by (simp add: stored_refresh_token_frame)
        next
          case r: (Inr fresh)
          from refresh_v2_result_token[OF r] obtain kvs where
            "fresh = JObj kvs" "map_of kvs ''refresh_token'' = Some rt" by blast
          then show ?thesis
            using R t Inr True g tr r by (simp add: stored_refresh_token_def)
        qed
      qed
    qed
  qed
qed


lemma called_fields:
  "tokens_file (called rq w) = tokens_file w"
  "token_log (called rq w) = token_log w"
  "api_log (called rq w) = api_log w @ [rq]"
  "clock (called rq w) = clock w + int (fst (api_server w (length (api_log w))))"
  "token_server (called rq w) = token_server w"
  "api_server (called rq w) = api_server w"
  by (simp_all add: called_def)

lemma google_headers_v2_keepsD:
  "google_headers_v2 py cfg w = (a, b) \<Longrightarrow> stored_refresh_token w = Some rt \<Longrightarrow>
     stored_refresh_token b = Some rt"
  using google_headers_v2_keeps_refresh_token[of w rt py cfg] by simp

lemma refresh_v2_InrD:
  "refresh_access_token_v2 py cfg rt w = (Inr fresh, w') \<Longrightarrow>
     w' = posted (refresh_data_v2 cfg rt) w
     \<and> (\<exists>kvs. fresh = JObj kvs \<and> map_of kvs ''refresh_token'' = Some rt)"
  using refresh_v2_world[of py cfg rt w] refresh_v2_result_token[of py cfg rt w fresh] by simp

lemma refresh_v2_InlD:
  "refresh_access_token_v2 py cfg rt w = (Inl x, w') \<Longrightarrow>
     w' = posted (refresh_data_v2 cfg rt) w"
  using refresh_v2_world[of py cfg rt w] by simp

lemma save_then_keeps:
  assumes "refresh_access_token_v2 py cfg rt w = (Inr fresh, w')"
  shows "stored_refresh_token (w'\<lparr>tokens_file := Content fresh\<rparr>) = Some rt"
  using refresh_v2_InrD[OF assms] by (auto simp: stored_refresh_token_def)

lemma gmail_unread_v2_keeps_refresh_token:
  assumes "stored_refresh_token w = Some rt"
  shows "stored_refresh_token (snd (gmail_unread_v2 py cfg req w)) = Some rt"
proof -
  obtain a w1 where h: "google_headers_v2 py cfg w = (a, w1)" by force
  have s1: "stored_refresh_token w1 = Some rt" using h assms by (rule google_headers_v2_keepsD)
  then obtain t where t: "tokens_file w1 = Content (JObj t)" "map_of t ''refresh_token'' = Some rt"
    unfolding stored_refresh_token_Some by blast
  show ?thesis
    using h s1 t
    by (auto simp: gmail_unread_v2_def io_defs requests_api_def response_json_def Let_def
        load_tokens_v2_eq save_tokens_v2_def stored_refresh_token_frame get_or_def
        called_fields posted_fields
        split: sum.splits option.splits outcome.splits prod.splits if_splits
        dest: google_headers_v2_keepsD refresh_v2_InlD save_then_keeps)
qed


lemma gmail_unread_v2_forced_refresh:
  assumes "tokens_file w = Content (JObj t)" "map_of t ''refresh_token'' = Some rt" "truthy rt"
      and "py_int py (get_or t ''expires_at'' (JInt 0)) = Inr e" "clock w < e"
      and "truthy (get_or t ''access_token'' JNull)"
      and "snd (api_server w (length (api_log w))) = Answered r1" "status_code r1 = 401"
      and "snd (token_server w (length (token_log w))) = Answered r"
      and "\<not> (400 \<le> status_code r \<and> status_code r < 600)"
      and "decoded r = Some (JObj j)"
      and "py_int py (get_or j ''expires_in'' (JInt 3600)) = Inr ttl" "60 < ttl"
  shows "tokens_file (snd (gmail_unread_v2 py cfg req w)) =
           Content (JObj (AList.update ''expires_at''
             (JInt (clock w + int (fst (api_server w (length (api_log w))))
                      + int (fst (token_server w (length (token_log w)))) + ttl - 60))
             (AList.update ''refresh_token'' rt j)))"
proof -
  let ?fresh = "AList.update ''expires_at''
             (JInt (clock w + int (fst (api_server w (length (api_log w))))
                      + int (fst (token_server w (length (token_log w)))) + ttl - 60))
             (AList.update ''refresh_token'' rt j)"
  have ne: "t \<noteq> []" using assms(2) by auto
  have g: "get_or t ''refresh_token'' JNull = rt" using assms(2) by (simp add: get_or_def)
  have g1: "google_headers_v2 py cfg w = (Inr (Some (get_or t ''access_token'' JNull)), w)"
    using google_headers_v2_fresh[of w t py e cfg] assms ne by simp
  have r2: "refresh_access_token_v2 py cfg rt (called rq w)
              = (Inr (JObj ?fresh), posted (refresh_data_v2 cfg rt) (called rq w))" for rq
  proof -
    have "fst (refresh_access_token_v2 py cfg rt (called rq w)) = Inr (JObj ?fresh)"
      using refresh_v2_Inr_eq[of "called rq w" r j py ttl cfg rt] assms
      by (simp add: called_fields posted_fields)
    then show ?thesis
      using refresh_v2_world[of py cfg rt "called rq w"] by (metis prod.collapse)
  qed
  have g2: "google_headers_v2 py cfg
              ((posted (refresh_data_v2 cfg rt) (called rq w))\<lparr>tokens_file := Content (JObj ?fresh)\<rparr>)
            = (Inr (if truthy (get_or ?fresh ''access_token'' JNull)
                    then Some (get_or ?fresh ''access_token'' JNull) else None),
               (posted (refresh_data_v2 cfg rt) (called rq w))\<lparr>tokens_file := Content (JObj ?fresh)\<rparr>)"
    for rq
    by (rule google_headers_v2_fresh[where e = "clock w + int (fst (api_server w (length (api_log w))))
                      + int (fst (token_server w (length (token_log w)))) + ttl - 60"])
       (use assms(13) in \<open>simp_all add: get_or_update called_fields posted_fields\<close>)
  show ?thesis
    using g1 r2 g2 assms(1,2,3,7,8) g
    by (simp add: gmail_unread_v2_def io_defs requests_api_def response_json_def Let_def
        load_tokens_v2_eq save_tokens_v2_def called_fields posted_fields
        split: option.splits outcome.splits)
qed

text \<open>
  Claim C4: after a successful refresh whose response has no \<^verbatim>\<open>refresh_token\<close> field, the
  credential set persisted is the response with the previously stored refresh token put
  back in, unchanged. The provider answers \<open>r\<close> with a status that does not raise and a JSON
  object \<open>j\<close> without \<^verbatim>\<open>refresh_token\<close>; the token file holds \<open>t\<close> with refresh token \<open>rt\<close>.
  First conjunct: \<^verbatim>\<open>_google_headers\<close> of \<^verbatim>\<open>app.py\<close> on an expired set; second conjunct:
  \<^verbatim>\<open>get_access_token\<close> of \<^verbatim>\<open>App.py\<close> on a set within its 60 seconds of margin; third
  conjunct: the forced refresh of \<^verbatim>\<open>gmail_unread\<close> of \<^verbatim>\<open>app.py\<close>, on a set that is not yet
  due when the resource endpoint answers 401 (the new set, granted for more than 60
  seconds, is not due either, so it is the set the handler leaves in the file). These are
  the three places where the repository refreshes.
\<close>

theorem refresh_without_refresh_token_keeps_stored_one:
  assumes "snd (token_server w (length (token_log w))) = Answered r"
      and "\<not> (400 \<le> status_code r \<and> status_code r < 600)"
      and "decoded r = Some (JObj j)"
      and "map_of j ''refresh_token'' = None"
      and "tokens_file w = Content (JObj t)"
      and "map_of t ''refresh_token'' = Some rt"
  shows "(truthy rt \<and> py_int py (get_or t ''expires_at'' (JInt 0)) = Inr e2 \<and> e2 \<le> clock w
            \<and> py_int py (get_or j ''expires_in'' (JInt 3600)) = Inr ttl2 \<longrightarrow>
          (\<exists>t'. tokens_file (snd (google_headers_v2 py cfg2 w)) = Content (JObj t')
              \<and> t' = AList.update ''expires_at''
                        (JInt (clock (posted (refresh_data_v2 cfg2 rt) w) + ttl2 - 60))
                        (AList.update ''refresh_token'' rt j)
              \<and> map_of t' ''refresh_token'' = Some rt))
       \<and> (py_number (get_or t ''expires_at'' (JInt 0)) = Inr e1 \<and> e1 - 60 \<le> clock w
            \<and> py_number (get_or j ''expires_in'' (JInt 3500)) = Inr ttl1 \<longrightarrow>
          (\<exists>t'. tokens_file (snd (get_access_token_v1 cfg1 w)) = Content (JObj t')
              \<and> t' = AList.update ''expires_at''
                        (JInt (clock (posted (refresh_data_v1 cfg1 rt) w) + ttl1))
                        (AList.update ''refresh_token'' rt j)
              \<and> map_of t' ''refresh_token'' = Some rt))
       \<and> (truthy rt \<and> py_int py (get_or t ''expires_at'' (JInt 0)) = Inr e3 \<and> clock w < e3
            \<and> truthy (get_or t ''access_token'' JNull)
            \<and> snd (api_server w (length (api_log w))) = Answered r1 \<and> status_code r1 = 401
            \<and> py_int py (get_or j ''expires_in'' (JInt 3600)) = Inr ttl3 \<and> 60 < ttl3 \<longrightarrow>
          (\<exists>t'. tokens_file (snd (gmail_unread_v2 py cfg2 req w)) = Content (JObj t')
              \<and> t' = AList.update ''expires_at''
                        (JInt (clock w + int (fst (api_server w (length (api_log w))))
                                 + int (fst (token_server w (length (token_log w)))) + ttl3 - 60))
                        (AList.update ''refresh_token'' rt j)
              \<and> map_of t' ''refresh_token'' = Some rt))"
proof (intro conjI impI)
  assume a: "truthy rt \<and> py_int py (get_or t ''expires_at'' (JInt 0)) = Inr e2 \<and> e2 \<le> clock w
            \<and> py_int py (get_or j ''expires_in'' (JInt 3600)) = Inr ttl2"
  have g: "get_or t ''refresh_token'' JNull = rt" using assms(6) by (simp add: get_or_def)
  have "fst (refresh_access_token_v2 py cfg2 rt w) =
           Inr (JObj (AList.update ''expires_at''
                  (JInt (clock (posted (refresh_data_v2 cfg2 rt) w) + ttl2 - 60))
                  (AList.update ''refresh_token'' rt j)))"
    using assms(1-3) a by (simp add: refresh_v2_Inr_eq)
  then have "tokens_file (snd (google_headers_v2 py cfg2 w)) =
      Content (JObj (AList.update ''expires_at''
                  (JInt (clock (posted (refresh_data_v2 cfg2 rt) w) + ttl2 - 60))
                  (AList.update ''refresh_token'' rt j)))"
    using google_headers_v2_refresh[of w t py e2 cfg2] assms(5) a g by simp
  then show "\<exists>t'. tokens_file (snd (google_headers_v2 py cfg2 w)) = Content (JObj t')
              \<and> t' = AList.update ''expires_at''
                        (JInt (clock (posted (refresh_data_v2 cfg2 rt) w) + ttl2 - 60))
                        (AList.update ''refresh_token'' rt j)
              \<and> map_of t' ''refresh_token'' = Some rt"
    by (simp add: update_conv')
next
  assume a: "py_number (get_or t ''expires_at'' (JInt 0)) = Inr e1 \<and> e1 - 60 \<le> clock w
            \<and> py_number (get_or j ''expires_in'' (JInt 3500)) = Inr ttl1"
  have "tokens_file (snd (get_access_token_v1 cfg1 w)) =
      Content (JObj (AList.update ''expires_at''
                  (JInt (clock (posted (refresh_data_v1 cfg1 rt) w) + ttl1))
                  (AList.update ''refresh_token'' rt j)))"
    using get_access_token_v1_refresh[of w t e1 rt cfg1] assms(5,6) a
      refresh_v1_Inr_eq[OF assms(1-3), of ttl1 cfg1 rt]
    by simp
  then show "\<exists>t'. tokens_file (snd (get_access_token_v1 cfg1 w)) = Content (JObj t')
              \<and> t' = AList.update ''expires_at''
                        (JInt (clock (posted (refresh_data_v1 cfg1 rt) w) + ttl1))
                        (AList.update ''refresh_token'' rt j)
              \<and> map_of t' ''refresh_token'' = Some rt"
    by (simp add: update_conv')
next
  assume a: "truthy rt \<and> py_int py (get_or t ''expires_at'' (JInt 0)) = Inr e3 \<and> clock w < e3
            \<and> truthy (get_or t ''access_token'' JNull)
            \<and> snd (api_server w (length (api_log w))) = Answered r1 \<and> status_code r1 = 401
            \<and> py_int py (get_or j ''expires_in'' (JInt 3600)) = Inr ttl3 \<and> 60 < ttl3"
  have "tokens_file (snd (gmail_unread_v2 py cfg2 req w)) =
           Content (JObj (AList.update ''expires_at''
             (JInt (clock w + int (fst (api_server w (length (api_log w))))
                      + int (fst (token_server w (length (token_log w)))) + ttl3 - 60))
             (AList.update ''refresh_token'' rt j)))"
    using a assms
    by (intro gmail_unread_v2_forced_refresh[where t = t and e = e3 and ?r1.0 = r1 and r = r]) simp_all
  then show "\<exists>t'. tokens_file (snd (gmail_unread_v2 py cfg2 req w)) = Content (JObj t')
              \<and> t' = AList.update ''expires_at''
                        (JInt (clock w + int (fst (api_server w (length (api_log w))))
                                 + int (fst (token_server w (length (token_log w)))) + ttl3 - 60))
                        (AList.update ''refresh_token'' rt j)
              \<and> map_of t' ''refresh_token'' = Some rt"
    by (simp add: update_conv')
qed

text \<open>
  The theorem at concrete inputs: the token file holds the set that expired at 500, the
  clock reads 1000, and the provider grants \<^verbatim>\<open>at-new\<close> for 3600 seconds without a refresh
  token. Both variants persist the answer with \<^verbatim>\<open>rt-old\<close> added. So does the forced refresh
  of \<^verbatim>\<open>gmail_unread\<close>, when the file holds the set valid until 5000 and the resource
  endpoint answers 401 to the first request.
\<close>

theorem refresh_without_refresh_token_keeps_stored_one_witness:
  "tokens_file (snd (google_headers_v2 sample_runtime sample_cfg_v2
      (make_world (Content (JObj expired_set)) 1000 server_grants server_down)))
     = Content (JObj [(''access_token'', JStr ''at-new''), (''expires_in'', JInt 3600),
                      (''refresh_token'', JStr ''rt-old''), (''expires_at'', JInt 4541)])
   \<and> tokens_file (snd (get_access_token_v1 sample_cfg_v1
      (make_world (Content (JObj expired_set)) 1000 server_grants server_down)))
     = Content (JObj [(''access_token'', JStr ''at-new''), (''expires_in'', JInt 3600),
                      (''refresh_token'', JStr ''rt-old''), (''expires_at'', JInt 4601)])
   \<and> tokens_file (snd (gmail_unread_v2 sample_runtime sample_cfg_v2 unread_request
      (make_world (Content (JObj valid_set)) 1000 server_grants api_rejects_once)))
     = Content (JObj [(''access_token'', JStr ''at-new''), (''expires_in'', JInt 3600),
                      (''refresh_token'', JStr ''rt-old''), (''expires_at'', JInt 4542)])"
proof -
  let ?w = "make_world (Content (JObj expired_set)) 1000 server_grants server_down"
  let ?v = "make_world (Content (JObj valid_set)) 1000 server_grants api_rejects_once"
  have h1: "snd (token_server ?w (length (token_log ?w))) = Answered grant_response"
    and v1: "snd (token_server ?v (length (token_log ?v))) = Answered grant_response"
    by (simp_all add: make_world_def server_grants_def)
  have h2: "\<not> (400 \<le> status_code grant_response \<and> status_code grant_response < 600)"
    by (simp add: grant_response_def)
  have h3: "decoded grant_response = Some (JObj grant_body)"
    by (simp add: grant_response_def)
  have h4: "map_of grant_body ''refresh_token'' = None"
    by (simp add: grant_body_def)
  have h5: "tokens_file ?w = Content (JObj expired_set)"
    and v5: "tokens_file ?v = Content (JObj valid_set)"
    by (simp_all add: make_world_def)
  have h6: "map_of expired_set ''refresh_token'' = Some (JStr ''rt-old'')"
    and v6: "map_of valid_set ''refresh_token'' = Some (JStr ''rt-old'')"
    by (simp_all add: expired_set_def valid_set_def)
  have v7: "snd (api_server ?v (length (api_log ?v))) = Answered unauthorized_response"
           "status_code unauthorized_response = 401"
    by (simp_all add: make_world_def api_rejects_once_def unauthorized_response_def)
  note A = refresh_without_refresh_token_keeps_stored_one
         [OF h1 h2 h3 h4 h5 h6, of sample_runtime 500 3600 sample_cfg_v2 500 3600 sample_cfg_v1]
  note B = refresh_without_refresh_token_keeps_stored_one
         [OF v1 h2 h3 h4 v5 v6, where py = sample_runtime and ?e3.0 = 5000 and ?ttl3.0 = 3600
          and ?cfg2.0 = sample_cfg_v2 and ?r1.0 = unauthorized_response and req = unread_request]
  from A B v7 show ?thesis
    by (simp add: get_or_def sample_defs posted_def refresh_data_v1_def refresh_data_v2_def)
qed

lemma get_access_token_v1_keeps_refresh_token:
  assumes "stored_refresh_token w = Some rt"
  shows "stored_refresh_token (snd (get_access_token_v1 cfg w)) = Some rt"
proof -
  from assms obtain t where t: "tokens_file w = Content (JObj t)"
      "map_of t ''refresh_token'' = Some rt"
    unfolding stored_refresh_token_Some by blast
  have ne: "t \<noteq> []" using t(2) by auto
  show ?thesis
  proof (cases "py_number (get_or t ''expires_at'' (JInt 0))")
    case (Inl x)
    then have "get_access_token_v1 cfg w = (Inl x, w)"
      using t ne by (simp add: get_access_token_v1_def load_tokens_v1_eq io_defs)
    then show ?thesis using assms by simp
  next
    case (Inr e)
    show ?thesis
    proof (cases "e - 60 \<le> clock w")
      case False
      then show ?thesis
        using get_access_token_v1_fresh[of w t e cfg] t ne Inr assms by simp
    next
      case True
      note R = get_access_token_v1_refresh[of w t e rt cfg, OF t(1) Inr True t(2)]
      show ?thesis
      proof (cases "fst (refresh_access_token_v1 cfg rt w)")
        case (Inl x)
        then have "refresh_access_token_v1 cfg rt w = (Inl x, posted (refresh_data_v1 cfg rt) w)"
          using refresh_v1_Inl[of cfg rt w x] by (metis prod.collapse)
        then show ?thesis using R assms by (simp add: stored_refresh_token_frame)
      next
        case (Inr fresh)
        then have "refresh_access_token_v1 cfg rt w
                     = (Inr fresh, snd (refresh_access_token_v1 cfg rt w))"
          by (metis prod.collapse)
        then obtain w' where w': "refresh_access_token_v1 cfg rt w = (Inr fresh, w')" by blast
        then have "stored_refresh_token w' = Some rt"
          unfolding refresh_v1_Inr by (auto simp: stored_refresh_token_def update_conv')
        then show ?thesis using R w' by simp
      qed
    qed
  qed
qed

text \<open>
  Claim C9: a successful refresh always persists the refresh token that was passed into
  the refresh call; a refresh token newly issued in the provider's answer is overwritten
  by it and never stored. First conjunct: the set returned by \<^verbatim>\<open>_refresh_access_token\<close>
  of \<^verbatim>\<open>app.py\<close>; second: \<^verbatim>\<open>_google_headers\<close> saves exactly that set; third: the set
  returned and saved by \<^verbatim>\<open>refresh_access_token\<close> of \<^verbatim>\<open>App.py\<close>. Fourth: at each of the
  three places where the repository refreshes (\<^verbatim>\<open>_google_headers\<close> and the forced refresh
  of \<^verbatim>\<open>gmail_unread\<close> in \<^verbatim>\<open>app.py\<close>, \<^verbatim>\<open>get_access_token\<close> in \<^verbatim>\<open>App.py\<close>), whatever the
  provider answers and however often it is asked, the refresh token in the token file
  afterwards is the one that was there before.
\<close>

theorem refresh_persists_the_refresh_token_passed_in:
  "(fst (refresh_access_token_v2 py cfg2 rt w) = Inr tj2 \<longrightarrow>
       py_getitem tj2 ''refresh_token'' = Inr rt)
 \<and> (tokens_file w = Content (JObj t) \<and> py_int py (get_or t ''expires_at'' (JInt 0)) = Inr e
       \<and> e \<le> clock w \<and> get_or t ''refresh_token'' JNull = rt \<and> truthy rt
       \<and> fst (refresh_access_token_v2 py cfg2 rt w) = Inr tj2 \<longrightarrow>
       tokens_file (snd (google_headers_v2 py cfg2 w)) = Content tj2)
 \<and> (fst (refresh_access_token_v1 cfg1 rt w) = Inr tj1 \<longrightarrow>
       py_getitem tj1 ''refresh_token'' = Inr rt
       \<and> tokens_file (snd (refresh_access_token_v1 cfg1 rt w)) = Content tj1)
 \<and> (stored_refresh_token w = Some rt \<longrightarrow>
       stored_refresh_token (snd (google_headers_v2 py cfg2 w)) = Some rt
       \<and> stored_refresh_token (snd (gmail_unread_v2 py cfg2 req w)) = Some rt
       \<and> stored_refresh_token (snd (get_access_token_v1 cfg1 w)) = Some rt)"
proof (intro conjI impI)
  assume "fst (refresh_access_token_v2 py cfg2 rt w) = Inr tj2"
  then show "py_getitem tj2 ''refresh_token'' = Inr rt"
    unfolding refresh_v2_Inr by (auto simp: update_conv')
next
  assume a: "tokens_file w = Content (JObj t) \<and> py_int py (get_or t ''expires_at'' (JInt 0)) = Inr e
       \<and> e \<le> clock w \<and> get_or t ''refresh_token'' JNull = rt \<and> truthy rt
       \<and> fst (refresh_access_token_v2 py cfg2 rt w) = Inr tj2"
  then show "tokens_file (snd (google_headers_v2 py cfg2 w)) = Content tj2"
    using google_headers_v2_refresh[of w t py e cfg2] by auto
next
  assume a: "fst (refresh_access_token_v1 cfg1 rt w) = Inr tj1"
  then have "refresh_access_token_v1 cfg1 rt w = (Inr tj1, snd (refresh_access_token_v1 cfg1 rt w))"
    by (metis prod.collapse)
  then show "py_getitem tj1 ''refresh_token'' = Inr rt"
    unfolding refresh_v1_Inr by (auto simp: update_conv')
next
  assume a: "fst (refresh_access_token_v1 cfg1 rt w) = Inr tj1"
  then have "refresh_access_token_v1 cfg1 rt w = (Inr tj1, snd (refresh_access_token_v1 cfg1 rt w))"
    by (metis prod.collapse)
  then show "tokens_file (snd (refresh_access_token_v1 cfg1 rt w)) = Content tj1"
    unfolding refresh_v1_Inr by auto
next
  assume a: "stored_refresh_token w = Some rt"
  show "stored_refresh_token (snd (google_headers_v2 py cfg2 w)) = Some rt"
    using a by (rule google_headers_v2_keeps_refresh_token)
  show "stored_refresh_token (snd (gmail_unread_v2 py cfg2 req w)) = Some rt"
    using a by (rule gmail_unread_v2_keeps_refresh_token)
  show "stored_refresh_token (snd (get_access_token_v1 cfg1 w)) = Some rt"
    using a by (rule get_access_token_v1_keeps_refresh_token)
qed

text \<open>
  The theorem at a provider that rotates the refresh token: its answer carries
  \<^verbatim>\<open>rt-new\<close>, the call was made with \<^verbatim>\<open>rt-old\<close>, and \<^verbatim>\<open>rt-old\<close> is what both variants
  return and store. The same after the forced refresh of \<^verbatim>\<open>gmail_unread\<close>: one request
  goes to the rotating provider, and the file still holds \<^verbatim>\<open>rt-old\<close>.
\<close>

theorem refresh_persists_the_refresh_token_passed_in_witness:
  "map_of rotate_body ''refresh_token'' = Some (JStr ''rt-new'')
   \<and> fst (refresh_access_token_v2 sample_runtime sample_cfg_v2 (JStr ''rt-old'')
            (make_world (Content (JObj expired_set)) 1000 server_rotates server_down))
     = Inr (JObj [(''access_token'', JStr ''at-new''), (''refresh_token'', JStr ''rt-old''),
                  (''expires_in'', JInt 3600), (''expires_at'', JInt 4541)])
   \<and> tokens_file (snd (google_headers_v2 sample_runtime sample_cfg_v2
            (make_world (Content (JObj expired_set)) 1000 server_rotates server_down)))
     = Content (JObj [(''access_token'', JStr ''at-new''), (''refresh_token'', JStr ''rt-old''),
                  (''expires_in'', JInt 3600), (''expires_at'', JInt 4541)])
   \<and> tokens_file (snd (refresh_access_token_v1 sample_cfg_v1 (JStr ''rt-old'')
            (make_world (Content (JObj expired_set)) 1000 server_rotates server_down)))
     = Content (JObj [(''access_token'', JStr ''at-new''), (''refresh_token'', JStr ''rt-old''),
                  (''expires_in'', JInt 3600), (''expires_at'', JInt 4601)])
   \<and> token_log (snd (gmail_unread_v2 sample_runtime sample_cfg_v2 unread_request
            (make_world (Content (JObj valid_set)) 1000 server_rotates api_rejects_once)))
     = [refresh_data_v2 sample_cfg_v2 (JStr ''rt-old'')]
   \<and> stored_refresh_token (snd (gmail_unread_v2 sample_runtime sample_cfg_v2 unread_request
            (make_world (Content (JObj valid_set)) 1000 server_rotates api_rejects_once)))
     = Some (JStr ''rt-old'')"
proof -
  let ?w = "make_world (Content (JObj expired_set)) 1000 server_rotates server_down"
  let ?v = "make_world (Content (JObj valid_set)) 1000 server_rotates api_rejects_once"
  let ?t2 = "JObj [(''access_token'', JStr ''at-new''), (''refresh_token'', JStr ''rt-old''),
                   (''expires_in'', JInt 3600), (''expires_at'', JInt 4541)]"
  let ?t1 = "JObj [(''access_token'', JStr ''at-new''), (''refresh_token'', JStr ''rt-old''),
                   (''expires_in'', JInt 3600), (''expires_at'', JInt 4601)]"
  have r2: "fst (refresh_access_token_v2 sample_runtime sample_cfg_v2 (JStr ''rt-old'') ?w) = Inr ?t2"
    by (simp add: run_defs sample_defs)
  have r1: "fst (refresh_access_token_v1 sample_cfg_v1 (JStr ''rt-old'') ?w) = Inr ?t1"
    by (simp add: run_defs sample_defs)
  have s: "tokens_file ?w = Content (JObj expired_set)"
          "py_int sample_runtime (get_or expired_set ''expires_at'' (JInt 0)) = Inr 500"
          "500 \<le> clock ?w"
          "get_or expired_set ''refresh_token'' JNull = JStr ''rt-old''"
          "truthy (JStr ''rt-old'')"
    by (simp_all add: make_world_def expired_set_def get_or_def)
  have v: "stored_refresh_token ?v = Some (JStr ''rt-old'')"
    by (simp add: stored_refresh_token_def make_world_def valid_set_def)
  have l: "token_log (snd (gmail_unread_v2 sample_runtime sample_cfg_v2 unread_request ?v))
             = [refresh_data_v2 sample_cfg_v2 (JStr ''rt-old'')]"
    by (simp add: gmail_unread_v2_def arg_or_def Let_def run_defs sample_defs)
  note A = refresh_persists_the_refresh_token_passed_in
         [of sample_runtime sample_cfg_v2 "JStr ''rt-old''" ?w ?t2 expired_set 500 sample_cfg_v1 ?t1]
  note B = refresh_persists_the_refresh_token_passed_in
         [where w = ?v and rt = "JStr ''rt-old''" and py = sample_runtime
          and ?cfg2.0 = sample_cfg_v2 and req = unread_request]
  from A B r1 r2 s v l show ?thesis by (simp add: rotate_body_def)
qed

subsection \<open>A refresh that fails\<close>






section \<open>Expiry and the safety margin\<close>

lemma auth_callback_v1_200:
  assumes "fst (auth_callback_v1 cfg req w) = Inr (Text msg 200)"
  shows "\<exists>code r j ttl.
      args req ''code'' = Some code
    \<and> snd (token_server w (length (token_log w))) = Answered r
    \<and> decoded r = Some (JObj j)
    \<and> py_number (get_or j ''expires_in'' (JInt 3500)) = Inr ttl
    \<and> snd (auth_callback_v1 cfg req w) =
        (posted (exchange_data_v1 cfg code) w)
          \<lparr>tokens_file := Content (JObj (AList.update ''expires_at''
              (JInt (clock (posted (exchange_data_v1 cfg code) w) + ttl)) j))\<rparr>"
  using assms
  apply (simp add: auth_callback_v1_def io_defs requests_post_token_def raise_for_status_def
        response_json_def save_tokens_v1_def
        split: option.splits if_splits outcome.splits sum.splits)
  apply (auto simp: py_setitem_Inr py_get_Inr)
  done


lemma refresh_v1_token_log:
  "token_log (snd (refresh_access_token_v1 cfg rt w)) = token_log w @ [refresh_data_v1 cfg rt]"
proof (cases "fst (refresh_access_token_v1 cfg rt w)")
  case (Inl x)
  then show ?thesis using refresh_v1_Inl[of cfg rt w x] by (simp add: posted_fields)
next
  case (Inr tj)
  then have "refresh_access_token_v1 cfg rt w = (Inr tj, snd (refresh_access_token_v1 cfg rt w))"
    by (metis prod.collapse)
  then show ?thesis unfolding refresh_v1_Inr by (auto simp: posted_fields)
qed

lemma get_access_token_v1_refresh_log:
  assumes "tokens_file w = Content (JObj t)"
      and "py_number (get_or t ''expires_at'' (JInt 0)) = Inr e" "e - 60 \<le> clock w"
      and "map_of t ''refresh_token'' = Some rt"
  shows "token_log (snd (get_access_token_v1 cfg w)) = token_log w @ [refresh_data_v1 cfg rt]"
proof -
  have "snd (get_access_token_v1 cfg w) = snd (refresh_access_token_v1 cfg rt w)"
    using get_access_token_v1_refresh[OF assms, of cfg]
    by (simp split: prod.splits sum.splits)
  then show ?thesis by (simp add: refresh_v1_token_log)
qed

lemma google_headers_v2_refresh_log:
  assumes "tokens_file w = Content (JObj t)"
      and "py_int py (get_or t ''expires_at'' (JInt 0)) = Inr e" "e \<le> clock w"
      and "truthy (get_or t ''refresh_token'' JNull)"
  shows "token_log (snd (google_headers_v2 py cfg w))
           = token_log w @ [refresh_data_v2 cfg (get_or t ''refresh_token'' JNull)]"
  using google_headers_v2_refresh[OF assms, of cfg]
  by (simp add: posted_fields split: sum.splits)

text \<open>
  Claim C5, amended. The provider answers the request to the token endpoint with \<open>r\<close>,
  whose body is the JSON object \<open>j\<close>; the clock is read when the answer is in.
  \<^verbatim>\<open>app.py\<close> (conjuncts 1 and 2): the code exchange and the refresh both set
  \<^verbatim>\<open>expires_at\<close> to now + ttl - 60 with ttl = \<^verbatim>\<open>int(expires_in)\<close>, 3600 when absent, and
  \<^verbatim>\<open>auth_callback\<close> stores the set so made. \<^verbatim>\<open>App.py\<close> (conjuncts 3 and 4): the refresh and
  \<^verbatim>\<open>auth_callback\<close> store \<^verbatim>\<open>expires_at\<close> = now + ttl with ttl = \<^verbatim>\<open>expires_in\<close>, 3500 when
  absent, and subtract nothing. The margin of \<^verbatim>\<open>App.py\<close> is taken when the set is read
  (conjunct 5): \<^verbatim>\<open>get_access_token\<close> uses the stored token only while now < expires_at - 60
  and asks for a refresh from then on. \<^verbatim>\<open>_google_headers\<close> of \<^verbatim>\<open>app.py\<close> (conjunct 6) does
  nothing to the world while now < expires_at and asks for a refresh from then on. In
  both variants a credential is thus used for 60 seconds less than the provider grants.
\<close>

theorem expires_at_and_safety_margin:
  assumes "snd (token_server w (length (token_log w))) = Answered r"
      and "decoded r = Some (JObj j)"
  shows
  "(fst (exchange_code_for_tokens_v2 py cfg2 code w) = Inr tj \<longrightarrow>
      (\<exists>ttl. py_int py (get_or j ''expires_in'' (JInt 3600)) = Inr ttl
         \<and> py_getitem tj ''expires_at''
             = Inr (JInt (clock (snd (exchange_code_for_tokens_v2 py cfg2 code w)) + ttl - 60)))
      \<and> (args req ''code'' = Some code \<and> code \<noteq> [] \<longrightarrow>
            tokens_file (snd (auth_callback_v2 py cfg2 req w)) = Content tj))
 \<and> (fst (refresh_access_token_v2 py cfg2 rt w) = Inr tj \<longrightarrow>
      (\<exists>ttl. py_int py (get_or j ''expires_in'' (JInt 3600)) = Inr ttl
         \<and> py_getitem tj ''expires_at''
             = Inr (JInt (clock (snd (refresh_access_token_v2 py cfg2 rt w)) + ttl - 60))))
 \<and> (fst (refresh_access_token_v1 cfg1 rt w) = Inr tj \<longrightarrow>
      (\<exists>ttl. py_number (get_or j ''expires_in'' (JInt 3500)) = Inr ttl
         \<and> py_getitem tj ''expires_at''
             = Inr (JInt (clock (snd (refresh_access_token_v1 cfg1 rt w)) + ttl))
         \<and> tokens_file (snd (refresh_access_token_v1 cfg1 rt w)) = Content tj))
 \<and> (fst (auth_callback_v1 cfg1 req w) = Inr (Text msg 200) \<longrightarrow>
      (\<exists>ttl kvs. py_number (get_or j ''expires_in'' (JInt 3500)) = Inr ttl
         \<and> tokens_file (snd (auth_callback_v1 cfg1 req w)) = Content (JObj kvs)
         \<and> map_of kvs ''expires_at''
             = Some (JInt (clock (snd (auth_callback_v1 cfg1 req w)) + ttl))))
 \<and> (tokens_file w = Content (JObj t) \<and> t \<noteq> []
      \<and> py_number (get_or t ''expires_at'' (JInt 0)) = Inr e1 \<longrightarrow>
      (clock w < e1 - 60 \<longrightarrow>
         get_access_token_v1 cfg1 w = (py_getitem (JObj t) ''access_token'', w))
      \<and> (e1 - 60 \<le> clock w \<and> map_of t ''refresh_token'' = Some rt \<longrightarrow>
         token_log (snd (get_access_token_v1 cfg1 w)) = token_log w @ [refresh_data_v1 cfg1 rt]))
 \<and> (tokens_file w = Content (JObj t) \<and> t \<noteq> []
      \<and> py_int py (get_or t ''expires_at'' (JInt 0)) = Inr e2 \<longrightarrow>
      (clock w < e2 \<longrightarrow> snd (google_headers_v2 py cfg2 w) = w)
      \<and> (e2 \<le> clock w \<and> truthy (get_or t ''refresh_token'' JNull) \<longrightarrow>
         token_log (snd (google_headers_v2 py cfg2 w))
           = token_log w @ [refresh_data_v2 cfg2 (get_or t ''refresh_token'' JNull)]))"
proof (intro conjI impI)
  assume a: "fst (exchange_code_for_tokens_v2 py cfg2 code w) = Inr tj"
  show "\<exists>ttl. py_int py (get_or j ''expires_in'' (JInt 3600)) = Inr ttl
         \<and> py_getitem tj ''expires_at''
             = Inr (JInt (clock (snd (exchange_code_for_tokens_v2 py cfg2 code w)) + ttl - 60))"
    using a assms unfolding exchange_v2_Inr exchange_v2_world by (auto simp: update_conv')
  { assume c: "args req ''code'' = Some code \<and> code \<noteq> []"
    have "exchange_code_for_tokens_v2 py cfg2 code w
            = (Inr tj, posted (exchange_data_v2 cfg2 code) w)"
      using a exchange_v2_world[of py cfg2 code w] by (metis prod.collapse)
    then show "tokens_file (snd (auth_callback_v2 py cfg2 req w)) = Content tj"
      using c by (simp add: auth_callback_v2_def io_bind_def save_tokens_v2_def) }
next
  assume a: "fst (refresh_access_token_v2 py cfg2 rt w) = Inr tj"
  show "\<exists>ttl. py_int py (get_or j ''expires_in'' (JInt 3600)) = Inr ttl
         \<and> py_getitem tj ''expires_at''
             = Inr (JInt (clock (snd (refresh_access_token_v2 py cfg2 rt w)) + ttl - 60))"
    using a assms unfolding refresh_v2_Inr refresh_v2_world by (auto simp: update_conv')
next
  assume a: "fst (refresh_access_token_v1 cfg1 rt w) = Inr tj"
  then have "refresh_access_token_v1 cfg1 rt w = (Inr tj, snd (refresh_access_token_v1 cfg1 rt w))"
    by (metis prod.collapse)
  then show "\<exists>ttl. py_number (get_or j ''expires_in'' (JInt 3500)) = Inr ttl
         \<and> py_getitem tj ''expires_at''
             = Inr (JInt (clock (snd (refresh_access_token_v1 cfg1 rt w)) + ttl))
         \<and> tokens_file (snd (refresh_access_token_v1 cfg1 rt w)) = Content tj"
    using assms unfolding refresh_v1_Inr by (auto simp: update_conv' posted_fields)
next
  assume a: "fst (auth_callback_v1 cfg1 req w) = Inr (Text msg 200)"
  from auth_callback_v1_200[OF a] assms
  show "\<exists>ttl kvs. py_number (get_or j ''expires_in'' (JInt 3500)) = Inr ttl
         \<and> tokens_file (snd (auth_callback_v1 cfg1 req w)) = Content (JObj kvs)
         \<and> map_of kvs ''expires_at''
             = Some (JInt (clock (snd (auth_callback_v1 cfg1 req w)) + ttl))"
    by (auto simp: update_conv' posted_fields)
next
  assume a: "tokens_file w = Content (JObj t) \<and> t \<noteq> []
      \<and> py_number (get_or t ''expires_at'' (JInt 0)) = Inr e1"
  { assume "clock w < e1 - 60"
    then show "get_access_token_v1 cfg1 w = (py_getitem (JObj t) ''access_token'', w)"
      using a by (simp add: get_access_token_v1_fresh) }
  { assume "e1 - 60 \<le> clock w \<and> map_of t ''refresh_token'' = Some rt"
    then show "token_log (snd (get_access_token_v1 cfg1 w)) = token_log w @ [refresh_data_v1 cfg1 rt]"
      using a by (simp add: get_access_token_v1_refresh_log) }
next
  assume a: "tokens_file w = Content (JObj t) \<and> t \<noteq> []
      \<and> py_int py (get_or t ''expires_at'' (JInt 0)) = Inr e2"
  { assume "clock w < e2"
    then show "snd (google_headers_v2 py cfg2 w) = w"
      using a google_headers_v2_fresh[of w t py e2 cfg2] by simp }
  { assume "e2 \<le> clock w \<and> truthy (get_or t ''refresh_token'' JNull)"
    then show "token_log (snd (google_headers_v2 py cfg2 w))
           = token_log w @ [refresh_data_v2 cfg2 (get_or t ''refresh_token'' JNull)]"
      using a by (simp add: google_headers_v2_refresh_log) }
qed

text \<open>
  The claim fails for \<^verbatim>\<open>App.py\<close>: the provider grants 3600 seconds, the clock reads 1001
  when the answer is in, and the \<^verbatim>\<open>expires_at\<close> stored is 1001 + 3600, with nothing
  subtracted.
\<close>

theorem refresh_v1_stores_unreduced_expiry:
  "fst (refresh_access_token_v1 sample_cfg_v1 (JStr ''rt-old'')
        (make_world (Content (JObj expired_set)) 1000 server_grants server_down))
     = Inr (JObj [(''access_token'', JStr ''at-new''), (''expires_in'', JInt 3600),
                  (''refresh_token'', JStr ''rt-old''), (''expires_at'', JInt 4601)])
 \<and> clock (snd (refresh_access_token_v1 sample_cfg_v1 (JStr ''rt-old'')
        (make_world (Content (JObj expired_set)) 1000 server_grants server_down))) = 1001
 \<and> tokens_file (snd (refresh_access_token_v1 sample_cfg_v1 (JStr ''rt-old'')
        (make_world (Content (JObj expired_set)) 1000 server_grants server_down)))
     = Content (JObj [(''access_token'', JStr ''at-new''), (''expires_in'', JInt 3600),
                  (''refresh_token'', JStr ''rt-old''), (''expires_at'', JInt (1001 + 3600))])"
  by (simp add: run_defs sample_defs)

text \<open>
  The theorem at concrete inputs: the code exchange of \<^verbatim>\<open>app.py\<close> stores
  1001 + 3600 - 60; a set stored with \<^verbatim>\<open>expires_at\<close> 1050 and read at 1000 is refreshed by
  \<^verbatim>\<open>App.py\<close> (it is within the 60 seconds) and used as it is by \<^verbatim>\<open>app.py\<close>.
\<close>

theorem expires_at_and_safety_margin_witness:
  "tokens_file (snd (auth_callback_v2 sample_runtime sample_cfg_v2
        \<lparr>headers = Map.empty, args = [''code'' \<mapsto> ''4/c0de''], json_body = None\<rparr>
        (make_world NoFile 1000 server_grants server_down)))
     = Content (JObj [(''access_token'', JStr ''at-new''), (''expires_in'', JInt 3600),
                      (''expires_at'', JInt (1001 + 3600 - 60))])
 \<and> token_log (snd (get_access_token_v1 sample_cfg_v1
        (make_world (Content (stored_set (JStr ''rt-old'') 1050)) 1000 server_grants server_down)))
     = [refresh_data_v1 sample_cfg_v1 (JStr ''rt-old'')]
 \<and> snd (google_headers_v2 sample_runtime sample_cfg_v2
        (make_world (Content (stored_set (JStr ''rt-old'') 1050)) 1000 server_grants server_down))
     = make_world (Content (stored_set (JStr ''rt-old'') 1050)) 1000 server_grants server_down"
proof -
  let ?w0 = "make_world NoFile 1000 server_grants server_down"
  let ?w1 = "make_world (Content (stored_set (JStr ''rt-old'') 1050)) 1000 server_grants server_down"
  let ?req = "\<lparr>headers = Map.empty, args = [''code'' \<mapsto> ''4/c0de''], json_body = None\<rparr>"
  let ?tj = "JObj [(''access_token'', JStr ''at-new''), (''expires_in'', JInt 3600),
                   (''expires_at'', JInt 4541)]"
  let ?t = "[(''access_token'', JStr ''at-old''), (''refresh_token'', JStr ''rt-old''),
             (''expires_at'', JInt 1050)]"
  have h0: "snd (token_server ?w0 (length (token_log ?w0))) = Answered grant_response"
    and h1: "snd (token_server ?w1 (length (token_log ?w1))) = Answered grant_response"
    by (simp_all add: make_world_def server_grants_def)
  have hj: "decoded grant_response = Some (JObj grant_body)"
    by (simp add: grant_response_def)
  have x: "fst (exchange_code_for_tokens_v2 sample_runtime sample_cfg_v2 ''4/c0de'' ?w0) = Inr ?tj"
    by (simp add: run_defs sample_defs)
  have s: "tokens_file ?w1 = Content (JObj ?t)" "?t \<noteq> []"
          "py_number (get_or ?t ''expires_at'' (JInt 0)) = Inr 1050"
          "py_int sample_runtime (get_or ?t ''expires_at'' (JInt 0)) = Inr 1050"
          "map_of ?t ''refresh_token'' = Some (JStr ''rt-old'')"
          "clock ?w1 = 1000" "token_log ?w1 = []"
    by (simp_all add: make_world_def stored_set_def get_or_def)
  note A = expires_at_and_safety_margin[OF h0 hj, where ?cfg2.0 = sample_cfg_v2 and code = "''4/c0de''" and tj = ?tj
              and req = ?req and py = sample_runtime]
  note B = expires_at_and_safety_margin[OF h1 hj, where ?cfg1.0 = sample_cfg_v1 and ?cfg2.0 = sample_cfg_v2 and t = ?t
              and ?e1.0 = 1050 and ?e2.0 = 1050 and rt = "JStr ''rt-old''"]
  from A B x s show ?thesis by simp
qed

section \<open>Caller authentication: the API key\<close>

text \<open>
  The claim fails for \<^verbatim>\<open>App.py\<close>: with \<^verbatim>\<open>ACTION_API_KEY\<close> unset, and with it set to the
  empty string, \<^verbatim>\<open>require_api_key\<close> is false for every request, and a handler answers
  Forbidden before it reads the stored credential, here a valid one.
\<close>

theorem empty_api_key_forbids_in_v1:
  "API_KEY_v1 sample_cfg_v1 = None
 \<and> gmail_unread_v1 sample_cfg_v1 \<lparr>headers = Map.empty, args = Map.empty, json_body = None\<rparr>
       (make_world (Content (stored_set (JStr ''rt-old'') 5000)) 1000 server_grants server_down)
     = (Inr forbidden_v1,
        make_world (Content (stored_set (JStr ''rt-old'') 5000)) 1000 server_grants server_down)
 \<and> gmail_unread_v1 (sample_cfg_v1\<lparr>API_KEY_v1 := Some []\<rparr>)
       \<lparr>headers = [''x-api-key'' \<mapsto> []], args = Map.empty, json_body = None\<rparr>
       (make_world (Content (stored_set (JStr ''rt-old'') 5000)) 1000 server_grants server_down)
     = (Inr forbidden_v1,
        make_world (Content (stored_set (JStr ''rt-old'') 5000)) 1000 server_grants server_down)"
  by (simp add: gmail_unread_v1_def require_api_key_v1_def sample_cfg_v1_def io_return_def)

text \<open>
  Claim C1, amended. \<^verbatim>\<open>app.py\<close>: with an empty secret the decorator \<^verbatim>\<open>require_api_key\<close>
  calls the handler, whatever the request (conjunct 1); with a non-empty secret it calls
  the handler when the \<^verbatim>\<open>x-api-key\<close> header equals the secret (conjunct 2) and answers
  Forbidden, without calling the handler, when the header differs or is missing
  (conjunct 3). \<^verbatim>\<open>App.py\<close>: with the secret unset or empty, or with a header that differs
  from it or is missing, \<^verbatim>\<open>require_api_key\<close> is false and each of the eight guarded
  handlers (\<^verbatim>\<open>gmail_unread\<close>, \<^verbatim>\<open>gmail_message\<close>, \<^verbatim>\<open>gmail_send\<close>, \<^verbatim>\<open>cal_events\<close>,
  \<^verbatim>\<open>cal_create\<close>, \<^verbatim>\<open>contacts_list\<close>, \<^verbatim>\<open>contacts_search\<close>, \<^verbatim>\<open>contacts_get\<close>) answers
  Forbidden and does nothing else (conjunct 4); the check passes exactly when the secret
  is non-empty and the header equals it (conjunct 5).
\<close>

theorem api_key_check:
  "(API_KEY_v2 cfg2 = [] \<longrightarrow> require_api_key_v2 cfg2 func req w = func req w)
 \<and> (API_KEY_v2 cfg2 \<noteq> [] \<and> headers req ''x-api-key'' = Some (API_KEY_v2 cfg2) \<longrightarrow>
       require_api_key_v2 cfg2 func req w = func req w)
 \<and> (API_KEY_v2 cfg2 \<noteq> [] \<and> headers req ''x-api-key'' \<noteq> Some (API_KEY_v2 cfg2) \<longrightarrow>
       require_api_key_v2 cfg2 func req w = (Inr forbidden_v2, w))
 \<and> (API_KEY_v1 cfg1 = None \<or> API_KEY_v1 cfg1 = Some []
       \<or> headers req ''x-api-key'' \<noteq> API_KEY_v1 cfg1 \<longrightarrow>
       \<not> require_api_key_v1 cfg1 req
       \<and> gmail_unread_v1 cfg1 req w = (Inr forbidden_v1, w)
       \<and> gmail_message_v1 cfg1 req w = (Inr forbidden_v1, w)
       \<and> gmail_send_v1 py cfg1 req w = (Inr forbidden_v1, w)
       \<and> cal_events_v1 cfg1 req w = (Inr forbidden_v1, w)
       \<and> cal_create_v1 cfg1 req w = (Inr forbidden_v1, w)
       \<and> contacts_list_v1 py cfg1 req w = (Inr forbidden_v1, w)
       \<and> contacts_search_v1 py cfg1 req w = (Inr forbidden_v1, w)
       \<and> contacts_get_v1 cfg1 req w = (Inr forbidden_v1, w))
 \<and> (require_api_key_v1 cfg1 req \<longleftrightarrow>
       (\<exists>k. k \<noteq> [] \<and> API_KEY_v1 cfg1 = Some k \<and> headers req ''x-api-key'' = Some k))"
  by (auto simp: require_api_key_v2_def require_api_key_v1_def gmail_unread_v1_def
        gmail_message_v1_def gmail_send_v1_def cal_events_v1_def cal_create_v1_def
        contacts_list_v1_def contacts_search_v1_def contacts_get_v1_def io_defs Let_def
        split: option.splits)

text \<open>
  The theorem at concrete inputs: \<^verbatim>\<open>app.py\<close> without a secret lets a request without a key
  through to \<^verbatim>\<open>gmail_message\<close>; \<^verbatim>\<open>app.py\<close> and \<^verbatim>\<open>App.py\<close> with the secret \<^verbatim>\<open>k3y\<close> answer
  Forbidden to a request that carries \<^verbatim>\<open>wrong\<close>.
\<close>

theorem api_key_check_witness:
  "require_api_key_v2 sample_cfg_v2 (gmail_message_v2 sample_runtime sample_cfg_v2)
       \<lparr>headers = Map.empty, args = [''id'' \<mapsto> ''m1''], json_body = None\<rparr>
       (make_world NoFile 1000 server_down server_down)
     = gmail_message_v2 sample_runtime sample_cfg_v2 \<lparr>headers = Map.empty, args = [''id'' \<mapsto> ''m1''], json_body = None\<rparr>
       (make_world NoFile 1000 server_down server_down)
 \<and> require_api_key_v2 (sample_cfg_v2\<lparr>API_KEY_v2 := ''k3y''\<rparr>) (gmail_message_v2 sample_runtime sample_cfg_v2)
       \<lparr>headers = [''x-api-key'' \<mapsto> ''wrong''], args = [''id'' \<mapsto> ''m1''], json_body = None\<rparr>
       (make_world NoFile 1000 server_down server_down)
     = (Inr forbidden_v2, make_world NoFile 1000 server_down server_down)
 \<and> gmail_unread_v1 (sample_cfg_v1\<lparr>API_KEY_v1 := Some ''k3y''\<rparr>)
       \<lparr>headers = [''x-api-key'' \<mapsto> ''wrong''], args = [''id'' \<mapsto> ''m1''], json_body = None\<rparr>
       (make_world NoFile 1000 server_down server_down)
     = (Inr forbidden_v1, make_world NoFile 1000 server_down server_down)
 \<and> contacts_get_v1 (sample_cfg_v1\<lparr>API_KEY_v1 := Some ''k3y''\<rparr>)
       \<lparr>headers = [''x-api-key'' \<mapsto> ''wrong''], args = [''id'' \<mapsto> ''m1''], json_body = None\<rparr>
       (make_world NoFile 1000 server_down server_down)
     = (Inr forbidden_v1, make_world NoFile 1000 server_down server_down)
 \<and> gmail_send_v1 sample_runtime (sample_cfg_v1\<lparr>API_KEY_v1 := Some ''k3y''\<rparr>)
       \<lparr>headers = [''x-api-key'' \<mapsto> ''wrong''], args = [''id'' \<mapsto> ''m1''], json_body = None\<rparr>
       (make_world NoFile 1000 server_down server_down)
     = (Inr forbidden_v1, make_world NoFile 1000 server_down server_down)"
proof -
  let ?w = "make_world NoFile 1000 server_down server_down"
  let ?plain = "\<lparr>headers = Map.empty, args = [''id'' \<mapsto> ''m1''], json_body = None\<rparr>"
  let ?wrong = "\<lparr>headers = [''x-api-key'' \<mapsto> ''wrong''], args = [''id'' \<mapsto> ''m1''], json_body = None\<rparr>"
  have k: "API_KEY_v2 sample_cfg_v2 = []"
          "API_KEY_v2 (sample_cfg_v2\<lparr>API_KEY_v2 := ''k3y''\<rparr>) \<noteq> []"
          "headers ?wrong ''x-api-key'' \<noteq> Some (API_KEY_v2 (sample_cfg_v2\<lparr>API_KEY_v2 := ''k3y''\<rparr>))"
          "headers ?wrong ''x-api-key'' \<noteq> API_KEY_v1 (sample_cfg_v1\<lparr>API_KEY_v1 := Some ''k3y''\<rparr>)"
    by (simp_all add: sample_cfg_v2_def sample_cfg_v1_def)
  note A = api_key_check[of sample_cfg_v2 "gmail_message_v2 sample_runtime sample_cfg_v2" ?plain ?w]
  note B = api_key_check[of "sample_cfg_v2\<lparr>API_KEY_v2 := ''k3y''\<rparr>"
             "gmail_message_v2 sample_runtime sample_cfg_v2" ?wrong ?w
             "sample_cfg_v1\<lparr>API_KEY_v1 := Some ''k3y''\<rparr>" sample_runtime]
  from A B k show ?thesis by blast
qed

section \<open>The proxy handlers and a downstream 401\<close>

text \<open>
  \<^verbatim>\<open>gmail_message\<close> of \<^verbatim>\<open>app.py\<close> relays the decoded body and the status of whatever the
  resource endpoint answers; the status is not looked at.
\<close>

lemma gmail_message_v2_relays:
  assumes "google_headers_v2 py cfg w = (Inr (Some h), w1)"
      and "args req ''id'' = Some mid" "mid \<noteq> []"
      and "snd (api_server w1 (length (api_log w1))) = Answered r"
      and "decoded r = Some j"
  shows "gmail_message_v2 py cfg req w =
           (Inr (Json j (status_code r)),
            called \<lparr>http_verb = ''GET'', url = ''https://gmail.googleapis.com/gmail/v1/users/me/messages/'' @ mid,
                    bearer = Some h, params = [(''format'', JStr ''full'')], json_payload = None\<rparr> w1)"
  using assms
  by (simp add: gmail_message_v2_def io_defs requests_api_def response_json_def)

text \<open>
  Claim C8: every proxied operation answers a downstream 401 with exactly one forced
  refresh and exactly one retry of the downstream call. \<^verbatim>\<open>gmail_message\<close> of \<^verbatim>\<open>app.py\<close>
  does neither. The stored credential is not yet due; the resource endpoint answers 401 to
  the first request and would answer 200 to a second one; the provider would grant a
  refresh. The handler relays the 401: the token endpoint is never asked, and the resource
  endpoint is asked once.
\<close>

theorem gmail_message_v2_relays_401_without_retry:
  "route_gmail_message_v2 sample_runtime sample_cfg_v2 message_request
       (make_world (Content (stored_set (JStr ''rt-old'') 5000)) 1000 server_grants api_rejects_once)
     = (Inr (Json unauthorized_body 401),
        called \<lparr>http_verb = ''GET'', url = ''https://gmail.googleapis.com/gmail/v1/users/me/messages/m1'',
                bearer = Some (JStr ''at-old''), params = [(''format'', JStr ''full'')], json_payload = None\<rparr>
          (make_world (Content (stored_set (JStr ''rt-old'') 5000)) 1000 server_grants
             api_rejects_once))
   \<and> token_log (snd (route_gmail_message_v2 sample_runtime sample_cfg_v2 message_request
       (make_world (Content (stored_set (JStr ''rt-old'') 5000)) 1000 server_grants
          api_rejects_once))) = []
   \<and> length (api_log (snd (route_gmail_message_v2 sample_runtime sample_cfg_v2 message_request
       (make_world (Content (stored_set (JStr ''rt-old'') 5000)) 1000 server_grants
          api_rejects_once)))) = 1"
  by (simp add: route_gmail_message_v2_def require_api_key_v2_def gmail_message_v2_def
        run_defs sample_defs)

text \<open>
  In the same world \<^verbatim>\<open>gmail_unread\<close> of \<^verbatim>\<open>app.py\<close> does what the claim says: one refresh
  request, a second downstream request with the new token, and the second answer relayed.
\<close>

lemma gmail_unread_v2_refreshes_and_retries_once:
  "fst (route_gmail_unread_v2 sample_runtime sample_cfg_v2 unread_request
       (make_world (Content (stored_set (JStr ''rt-old'') 5000)) 1000 server_grants api_rejects_once))
     = Inr (Json messages_body 200)
   \<and> token_log (snd (route_gmail_unread_v2 sample_runtime sample_cfg_v2 unread_request
       (make_world (Content (stored_set (JStr ''rt-old'') 5000)) 1000 server_grants
          api_rejects_once)))
     = [refresh_data_v2 sample_cfg_v2 (JStr ''rt-old'')]
   \<and> map bearer (api_log (snd (route_gmail_unread_v2 sample_runtime sample_cfg_v2 unread_request
       (make_world (Content (stored_set (JStr ''rt-old'') 5000)) 1000 server_grants
          api_rejects_once))))
     = [Some (JStr ''at-old''), Some (JStr ''at-new'')]"
  by (simp add: route_gmail_unread_v2_def require_api_key_v2_def gmail_unread_v2_def arg_or_def
        Let_def run_defs sample_defs)

text \<open>\<^verbatim>\<open>gmail_unread\<close> of \<^verbatim>\<open>App.py\<close>, like every handler of that file, relays the 401 as well.\<close>

lemma gmail_unread_v1_relays_401_without_retry:
  "gmail_unread_v1 (sample_cfg_v1\<lparr>API_KEY_v1 := Some ''k3y''\<rparr>)
      \<lparr>headers = [''x-api-key'' \<mapsto> ''k3y''], args = Map.empty, json_body = None\<rparr>
      (make_world (Content (stored_set (JStr ''rt-old'') 5000)) 1000 server_grants api_rejects_once)
   = (Inr (Text (body_text unauthorized_response) 401),
      called \<lparr>http_verb = ''GET'', url = ''https://gmail.googleapis.com/gmail/v1/users/me/messages'',
                bearer = Some (JStr ''at-old''),
                params = [(''q'', JStr ''is:unread''), (''maxResults'', JStr ''10'')], json_payload = None\<rparr>
        (make_world (Content (stored_set (JStr ''rt-old'') 5000)) 1000 server_grants
           api_rejects_once))"
  by (simp add: gmail_unread_v1_def require_api_key_v1_def arg_or_def run_defs sample_defs)

section \<open>The consent URL\<close>

lemma hex_digit_plain: "n < 16 \<Longrightarrow> plain (hex_digit n)"
proof -
  assume n: "n < 16"
  have "(of_char (hex_digit n) :: nat) = (if n < 10 then 48 + n else 55 + n)"
    using n by (simp add: hex_digit_def)
  then have "(of_char (hex_digit n) :: nat) \<noteq> 38 \<and> (of_char (hex_digit n) :: nat) \<noteq> 61
      \<and> (of_char (hex_digit n) :: nat) \<noteq> 63"
    using n by (auto split: if_splits)
  then show ?thesis unfolding plain_def by auto
qed

lemma quote_char_plain: "list_all plain (quote_char c)"
proof -
  have d: "(of_char c :: nat) div 16 < 16" "(of_char c :: nat) mod 16 < 16"
    using of_char_mod_256[of c, where ?'a = nat]
    by (simp_all add: less_mult_imp_div_less)
  have s: "always_safe c \<Longrightarrow> plain c"
    by (auto simp: always_safe_def plain_def Let_def)
  have p: "plain CHR ''+''" "plain CHR ''%''" by (simp_all add: plain_def)
  show ?thesis
    using d s p by (simp add: quote_char_def hex_digit_plain)
qed

lemma quote_plus_plain: "list_all plain (quote_plus s)"
  by (induction s) (simp_all add: quote_plus_def quote_char_plain)

lemma quote_plus_no_sep:
  "CHR ''&'' \<notin> set (quote_plus s)" "CHR ''='' \<notin> set (quote_plus s)"
  using quote_plus_plain[of s] by (auto simp: list_all_iff plain_def)

lemma split_on_none: "c \<notin> set a \<Longrightarrow> split_on c a = [a]"
  by (induction a) auto

lemma split_on_first: "c \<notin> set a \<Longrightarrow> split_on c (a @ c # b) = a # split_on c b"
  by (induction a) auto

lemma split_on_join:
  "xs \<noteq> [] \<Longrightarrow> list_all (\<lambda>x. CHR ''&'' \<notin> set x) xs \<Longrightarrow>
     split_on CHR ''&'' (join ''&'' xs) = xs"
proof (induction "''&''" xs rule: join.induct)
  case 1
  then show ?case by simp
next
  case (2 x)
  then show ?case by (simp add: split_on_none)
next
  case (3 x y ys)
  then show ?case using split_on_first[of "CHR ''&''" x "join ''&'' (y # ys)"] by simp
qed


lemma encode_pair_no_amp: "CHR ''&'' \<notin> set (encode_pair p)"
  by (simp add: encode_pair_def quote_plus_no_sep)

lemma decode_pair:
  "(takeWhile (\<lambda>c. c \<noteq> CHR ''='') (encode_pair p),
    drop 1 (dropWhile (\<lambda>c. c \<noteq> CHR ''='') (encode_pair p)))
   = (quote_plus (fst p), quote_plus (snd p))"
  using quote_plus_no_sep(2)[of "fst p"]
  by (simp add: encode_pair_def takeWhile_append1 dropWhile_append3 takeWhile_tail dropWhile_append)

lemma query_pairs_urlencode:
  assumes "ps \<noteq> []"
  shows "query_pairs (''https://accounts.google.com/o/oauth2/auth?'' @ urlencode ps)
           = map (\<lambda>p. (quote_plus (fst p), quote_plus (snd p))) ps"
proof -
  have q: "query_string (''https://accounts.google.com/o/oauth2/auth?'' @ urlencode ps) = urlencode ps"
    by (simp add: query_string_def)
  have "split_on CHR ''&'' (urlencode ps) = map encode_pair ps"
    unfolding urlencode_def using assms
    by (intro split_on_join) (simp_all add: list_all_iff encode_pair_no_amp)
  then show ?thesis
    unfolding query_pairs_def q using decode_pair by simp
qed

lemma quote_plus_keys:
  "quote_plus ''response_type'' = ''response_type''" "quote_plus ''code'' = ''code''"
  "quote_plus ''client_id'' = ''client_id''" "quote_plus ''redirect_uri'' = ''redirect_uri''"
  "quote_plus ''scope'' = ''scope''" "quote_plus ''access_type'' = ''access_type''"
  "quote_plus ''offline'' = ''offline''" "quote_plus ''prompt'' = ''prompt''"
  "quote_plus ''consent'' = ''consent''"
  "quote_plus ''include_granted_scopes'' = ''include_granted_scopes''"
  "quote_plus ''true'' = ''true''"
  by (simp_all add: quote_plus_def quote_char_def always_safe_def)

text \<open>
  Claim C7, amended. In both variants \<^verbatim>\<open>auth_start\<close> answers with a redirect that depends
  on the configuration only, neither on the request nor on the world, and leaves the
  world as it is: no request is made (conjuncts 1, 2, 4 and 5). Read back, the query
  string of the URL of \<^verbatim>\<open>app.py\<close> has exactly the seven parameters of conjunct 3, among
  them \<^verbatim>\<open>access_type=offline\<close>, \<^verbatim>\<open>prompt=consent\<close> and \<^verbatim>\<open>include_granted_scopes=true\<close>;
  that of \<^verbatim>\<open>App.py\<close> has exactly the six parameters of conjunct 6, among them
  \<^verbatim>\<open>access_type=offline\<close> and \<^verbatim>\<open>prompt=consent\<close>, and no \<^verbatim>\<open>include_granted_scopes\<close>.
\<close>

theorem consent_url_parameters:
  "fst (auth_start_v2 cfg2 req w) = fst (auth_start_v2 cfg2 req' w')
 \<and> snd (auth_start_v2 cfg2 req w) = w
 \<and> (\<exists>u. fst (auth_start_v2 cfg2 req w) = Inr (Redirect u 302)
        \<and> query_pairs u =
            [(''response_type'', ''code''),
             (''client_id'', quote_plus (CLIENT_ID_v2 cfg2)),
             (''redirect_uri'', quote_plus (REDIRECT_URI_v2 cfg2)),
             (''scope'', quote_plus (join '' '' (SCOPES_v2 cfg2))),
             (''access_type'', ''offline''),
             (''prompt'', ''consent''),
             (''include_granted_scopes'', ''true'')])
 \<and> fst (auth_start_v1 cfg1 req w) = fst (auth_start_v1 cfg1 req' w')
 \<and> snd (auth_start_v1 cfg1 req w) = w
 \<and> (\<exists>u. fst (auth_start_v1 cfg1 req w) = Inr (Redirect u 302)
        \<and> query_pairs u =
            [(''client_id'', quote_plus (str_env (CLIENT_ID_v1 cfg1))),
             (''redirect_uri'', quote_plus (str_env (REDIRECT_URI_v1 cfg1))),
             (''response_type'', ''code''),
             (''access_type'', ''offline''),
             (''prompt'', ''consent''),
             (''scope'', quote_plus (SCOPES_v1 cfg1))])"
proof -
  have v2: "query_pairs (''https://accounts.google.com/o/oauth2/auth?'' @ urlencode
          [(''response_type'', ''code''),
           (''client_id'', CLIENT_ID_v2 cfg2),
           (''redirect_uri'', REDIRECT_URI_v2 cfg2),
           (''scope'', join '' '' (SCOPES_v2 cfg2)),
           (''access_type'', ''offline''),
           (''prompt'', ''consent''),
           (''include_granted_scopes'', ''true'')]) =
        [(''response_type'', ''code''),
             (''client_id'', quote_plus (CLIENT_ID_v2 cfg2)),
             (''redirect_uri'', quote_plus (REDIRECT_URI_v2 cfg2)),
             (''scope'', quote_plus (join '' '' (SCOPES_v2 cfg2))),
             (''access_type'', ''offline''),
             (''prompt'', ''consent''),
             (''include_granted_scopes'', ''true'')]"
    by (subst query_pairs_urlencode) (simp_all add: quote_plus_keys)
  have v1: "query_pairs (''https://accounts.google.com/o/oauth2/auth?'' @ urlencode
          [(''client_id'', str_env (CLIENT_ID_v1 cfg1)),
           (''redirect_uri'', str_env (REDIRECT_URI_v1 cfg1)),
           (''response_type'', ''code''),
           (''access_type'', ''offline''),
           (''prompt'', ''consent''),
           (''scope'', SCOPES_v1 cfg1)]) =
        [(''client_id'', quote_plus (str_env (CLIENT_ID_v1 cfg1))),
             (''redirect_uri'', quote_plus (str_env (REDIRECT_URI_v1 cfg1))),
             (''response_type'', ''code''),
             (''access_type'', ''offline''),
             (''prompt'', ''consent''),
             (''scope'', quote_plus (SCOPES_v1 cfg1))]"
    by (subst query_pairs_urlencode) (simp_all add: quote_plus_keys)
  show ?thesis
    unfolding auth_start_v2_def auth_start_v1_def io_return_def fst_conv snd_conv
    using v1 v2 by blast
qed

lemma hex_digit_table:
  "hex_digit 0 = CHR ''0''" "hex_digit 1 = CHR ''1''" "hex_digit 2 = CHR ''2''"
  "hex_digit 3 = CHR ''3''" "hex_digit 4 = CHR ''4''" "hex_digit 5 = CHR ''5''"
  "hex_digit 6 = CHR ''6''" "hex_digit 7 = CHR ''7''" "hex_digit 8 = CHR ''8''"
  "hex_digit 9 = CHR ''9''" "hex_digit 10 = CHR ''A''" "hex_digit 11 = CHR ''B''"
  "hex_digit 12 = CHR ''C''" "hex_digit 13 = CHR ''D''" "hex_digit 14 = CHR ''E''"
  "hex_digit 15 = CHR ''F''"
  by code_simp+

text \<open>
  The claim fails for \<^verbatim>\<open>App.py\<close>: the URL it redirects to has the six parameters below,
  and \<^verbatim>\<open>include_granted_scopes\<close> is not among them.
\<close>

theorem consent_url_v1_has_no_include_granted_scopes:
  "fst (auth_start_v1 sample_cfg_v1 unread_request (make_world NoFile 1000 server_down server_down))
     = Inr (Redirect ''https://accounts.google.com/o/oauth2/auth?client_id=client-1&redirect_uri=https%3A%2F%2Fbroker.example%2Fauth%2Fcallback&response_type=code&access_type=offline&prompt=consent&scope=https%3A%2F%2Fmail.google.com%2F+https%3A%2F%2Fwww.googleapis.com%2Fauth%2Fcalendar'' 302)
 \<and> map fst (query_pairs ''https://accounts.google.com/o/oauth2/auth?client_id=client-1&redirect_uri=https%3A%2F%2Fbroker.example%2Fauth%2Fcallback&response_type=code&access_type=offline&prompt=consent&scope=https%3A%2F%2Fmail.google.com%2F+https%3A%2F%2Fwww.googleapis.com%2Fauth%2Fcalendar'')
     = [''client_id'', ''redirect_uri'', ''response_type'', ''access_type'', ''prompt'', ''scope'']"
  by (simp add: auth_start_v1_def io_return_def urlencode_def encode_pair_def quote_plus_def
        quote_char_def always_safe_def hex_digit_table str_env_def sample_cfg_v1_def
        query_pairs_def query_string_def)

end
